theory Spec2Isabelle
  imports Main
begin

section \<open>Values\<close>

text \<open>
  The library is untyped at run time: it probes its arguments with \<open>typeof\<close>, property
  reads and truthiness. Values are therefore one datatype.

  \<^item> \<open>Obj\<close> is a plain object: the list of its own enumerable string-keyed properties,
    in enumeration order. A JavaScript object has no repeated key (\<open>wf_props\<close>).
  \<^item> \<open>Cls name statics fields\<close> is a class constructor, that is, a function whose source
    text starts with \<open>class\<close> and a blank (what \<open>isClass\<close> tests): its name, its static
    own properties, and the own properties of \<open>new c()\<close> (the declared defaults).
  \<^item> \<open>Fn name\<close> is any other user function.
  \<^item> \<open>BigInt\<close> is a bigint primitive, and \<open>SelfObj ps k\<close> is a cyclic object: the
    object \<open>o\<close> built with the properties \<open>ps\<close> and then \<open>o[k] = o\<close>. These are the values
    that \<open>JSON.stringify\<close> refuses.
  \<^item> \<open>SmartConfigFactory\<close>, \<open>ExtendedConfigFactory\<close> and \<open>PickFactory\<close> are the three
    \<open>async useFactory(...args)\<close> closures that modules.ts creates, with the variables
    they capture (the base and the \<open>useFactory\<close> of the captured \<open>arg\<close>).

  Numbers are integers here. Only own properties are modelled: names inherited from a
  prototype (\<open>toString\<close>, \<open>constructor\<close>, ...) and the built-in properties of functions
  other than a class's \<open>name\<close> read as \<open>undefined\<close>; no static property shadows a
  class's \<open>name\<close>.
\<close>

datatype jsval =
    Undefined
  | Null
  | Bool bool
  | Num int
  | Str string
  | Arr "jsval list"
  | Obj "(string \<times> jsval) list"
  | Cls string "(string \<times> jsval) list" "(string \<times> jsval) list"
  | Fn string
  | BigInt int
  | SelfObj "(string \<times> jsval) list" string
  | SmartConfigFactory jsval jsval
  | ExtendedConfigFactory jsval jsval
  | PickFactory jsval jsval

type_synonym props = "(string \<times> jsval) list"

text \<open>
  The text of an error message is a template: literal pieces and \<open>JSON.stringify\<close> of a
  value. The characters that \<open>JSON.stringify\<close> writes are kept symbolic (\<open>Json v\<close>);
  whether it returns at all is not (\<open>serialisable\<close> below).
\<close>

datatype msg_part = Lit string | Json jsval

datatype error =
    TypeError
  | InvalidConfigSource "msg_part list"
  | InvalidImportSource "msg_part list"
  | Thrown jsval

definition andThen :: "error + 'a \<Rightarrow> ('a \<Rightarrow> error + 'b) \<Rightarrow> error + 'b" where
  "andThen r f = (case r of Inl e \<Rightarrow> Inl e | Inr v \<Rightarrow> f v)"

fun map_err :: "('a \<Rightarrow> error + 'b) \<Rightarrow> 'a list \<Rightarrow> error + 'b list" where
  "map_err f [] = Inr []"
| "map_err f (x # xs) =
     (case f x of
        Inl e \<Rightarrow> Inl e
      | Inr y \<Rightarrow> (case map_err f xs of Inl e \<Rightarrow> Inl e | Inr ys \<Rightarrow> Inr (y # ys)))"

definition wf_props :: "props \<Rightarrow> bool" where
  "wf_props ps = distinct (map fst ps)"

fun truthy :: "jsval \<Rightarrow> bool" where
  "truthy Undefined = False"
| "truthy Null = False"
| "truthy (Bool b) = b"
| "truthy (Num n) = (n \<noteq> 0)"
| "truthy (Str s) = (s \<noteq> [])"
| "truthy (BigInt n) = (n \<noteq> 0)"
| "truthy _ = True"

fun typeof :: "jsval \<Rightarrow> string" where
  "typeof Undefined = ''undefined''"
| "typeof Null = ''object''"
| "typeof (Bool b) = ''boolean''"
| "typeof (Num n) = ''number''"
| "typeof (Str s) = ''string''"
| "typeof (Arr xs) = ''object''"
| "typeof (Obj ps) = ''object''"
| "typeof (SelfObj ps k) = ''object''"
| "typeof (BigInt n) = ''bigint''"
| "typeof _ = ''function''"

text \<open>Decimal digits of an array index, as a property key.\<close>

function show_nat :: "nat \<Rightarrow> string" where
  "show_nat n =
     (if n < 10 then [char_of (48 + n)]
      else show_nat (n div 10) @ [char_of (48 + n mod 10)])"
  by pat_completeness auto
termination
  by (relation "measure (\<lambda>n. n)") auto

declare show_nat.simps [simp del]

definition indexed :: "jsval list \<Rightarrow> props" where
  "indexed xs = map (\<lambda>i. (show_nat i, xs ! i)) [0..<length xs]"

text \<open>\<open>undefined\<close> and \<open>null\<close>: the two values on which a property read throws.\<close>

fun nullish :: "jsval \<Rightarrow> bool" where
  "nullish Undefined = True"
| "nullish Null = True"
| "nullish _ = False"

definition lookup :: "props \<Rightarrow> string \<Rightarrow> jsval" where
  "lookup ps k = (case map_of ps k of Some v \<Rightarrow> v | None \<Rightarrow> Undefined)"

text \<open>
  Defining a property on an object under construction: an existing key keeps its place
  and takes the new value, a new key goes last. (JavaScript enumerates keys that are
  array indices before the others; the list then holds the same properties in another
  order. The operations below read an object's properties one by one, so what they build
  from an object with distinct keys does not depend on that order.)
\<close>

fun set_prop :: "string \<Rightarrow> jsval \<Rightarrow> props \<Rightarrow> props" where
  "set_prop k v [] = [(k, v)]"
| "set_prop k v ((k', v') # ps) =
     (if k' = k then (k, v) # ps else (k', v') # set_prop k v ps)"

text \<open>\<open>o[k]\<close>: reading a property of \<open>undefined\<close> or \<open>null\<close> throws a TypeError.\<close>

fun get_prop :: "jsval \<Rightarrow> string \<Rightarrow> error + jsval" where
  "get_prop Undefined k = Inl TypeError"
| "get_prop Null k = Inl TypeError"
| "get_prop (Obj ps) k = Inr (lookup ps k)"
| "get_prop (Arr xs) k =
     Inr (if k = ''length'' then Num (int (length xs)) else lookup (indexed xs) k)"
| "get_prop (Str s) k =
     Inr (if k = ''length'' then Num (int (length s))
          else lookup (indexed (map (\<lambda>c. Str [c]) s)) k)"
| "get_prop (Cls n st fs) k = Inr (if k = ''name'' then Str n else lookup st k)"
| "get_prop (SelfObj ps k') k = Inr (if k = k' then SelfObj ps k' else lookup ps k)"
| "get_prop _ k = Inr Undefined"

text \<open>\<open>Object.entries(o)\<close>: throws on \<open>undefined\<close> and \<open>null\<close>.\<close>

fun entries :: "jsval \<Rightarrow> error + props" where
  "entries Undefined = Inl TypeError"
| "entries Null = Inl TypeError"
| "entries (Obj ps) = Inr ps"
| "entries (Arr xs) = Inr (indexed xs)"
| "entries (Str s) = Inr (indexed (map (\<lambda>c. Str [c]) s))"
| "entries (Cls n st fs) = Inr st"
| "entries (SelfObj ps k) = Inr (set_prop k (SelfObj ps k) ps)"
| "entries _ = Inr []"

text \<open>
  Whether \<open>JSON.stringify(v)\<close> returns: it throws a TypeError on a bigint and on an object
  that it meets again below itself, wherever it meets them while it walks the elements of
  arrays and the properties of objects. A function is no object to it: alone it gives
  \<open>undefined\<close>, in an array \<open>null\<close>, and as a property it is left out, and none of them is
  walked. (An object's \<open>toJSON\<close> method, if it has one, is taken to return.)
\<close>

fun serialisable :: "jsval \<Rightarrow> bool"
  and serialisable_all :: "jsval list \<Rightarrow> bool"
  and serialisable_props :: "(string \<times> jsval) list \<Rightarrow> bool" where
  "serialisable (BigInt n) = False"
| "serialisable (SelfObj ps k) = False"
| "serialisable (Arr xs) = serialisable_all xs"
| "serialisable (Obj ps) = serialisable_props ps"
| "serialisable _ = True"
| "serialisable_all [] = True"
| "serialisable_all (x # xs) = (serialisable x \<and> serialisable_all xs)"
| "serialisable_props [] = True"
| "serialisable_props ((k, v) # ps) = (serialisable v \<and> serialisable_props ps)"

text \<open>\<open>{...a, ...b}\<close> on property lists, and \<open>Object.fromEntries\<close>.\<close>

definition spread :: "props \<Rightarrow> props \<Rightarrow> props" where
  "spread a b = fold (\<lambda>(k, v). set_prop k v) b a"

definition fromEntries :: "props \<Rightarrow> props" where
  "fromEntries es = spread [] es"

text \<open>
  Declared as \<open>label?: string\<close>, \<open>prefix?: string\<close>: a property that holds a string, or is
  absent. A value of another type is outside the declared type and reads as absent.
\<close>

fun opt_string :: "jsval \<Rightarrow> string option" where
  "opt_string (Str s) = Some s"
| "opt_string _ = None"

text \<open>Truthiness of an optional string: set and not empty.\<close>

fun is_set :: "string option \<Rightarrow> bool" where
  "is_set None = False"
| "is_set (Some s) = (s \<noteq> [])"

section \<open>utils/helpers.ts\<close>

definition createNamedClass :: "string \<Rightarrow> jsval" where
  "createNamedClass name = Cls name [] []"

definition startsWith :: "string \<Rightarrow> string \<Rightarrow> bool" where
  "startsWith k p = (take (length p) k = p)"

definition removePrefix :: "jsval \<Rightarrow> string option \<Rightarrow> error + jsval" where
  "removePrefix obj prefix =
     (if is_set prefix
      then andThen (entries obj)
             (\<lambda>es. Inr (Obj (fromEntries (map (\<lambda>(k, v). (drop (length (the prefix)) k, v)) es))))
      else Inr obj)"

definition filterByPrefix :: "jsval \<Rightarrow> string option \<Rightarrow> error + jsval" where
  "filterByPrefix obj prefix =
     (if is_set prefix
      then andThen (entries obj)
             (\<lambda>es. Inr (Obj (fromEntries (filter (\<lambda>(k, v). startsWith k (the prefix)) es))))
      else Inr obj)"

definition pickLabel :: "jsval \<Rightarrow> string option \<Rightarrow> error + jsval" where
  "pickLabel obj label = (if is_set label then get_prop obj (the label) else Inr obj)"

definition pickLabeledAndPrefixed ::
  "jsval \<Rightarrow> string option \<Rightarrow> string option \<Rightarrow> error + jsval" where
  "pickLabeledAndPrefixed obj label prefix =
     andThen (pickLabel obj label)
       (\<lambda>picked. andThen (filterByPrefix picked prefix) (\<lambda>kept. removePrefix kept prefix))"

text \<open>
  The same helpers with the identity of the object carried along. A plain value cannot
  tell an object from a copy of it, so here every object comes with where it is from: the
  argument of the call itself, the value of one of its properties, or an object that
  \<open>Object.fromEntries\<close> has just created. Each helper returns its argument in the branch
  where the source returns \<open>obj\<close>.
\<close>

datatype origin = Given | Part | Created

definition removePrefix_ref ::
  "origin \<times> jsval \<Rightarrow> string option \<Rightarrow> error + origin \<times> jsval" where
  "removePrefix_ref obj prefix =
     (if is_set prefix
      then andThen (entries (snd obj))
             (\<lambda>es. Inr (Created,
                         Obj (fromEntries (map (\<lambda>(k, v). (drop (length (the prefix)) k, v)) es))))
      else Inr obj)"

definition filterByPrefix_ref ::
  "origin \<times> jsval \<Rightarrow> string option \<Rightarrow> error + origin \<times> jsval" where
  "filterByPrefix_ref obj prefix =
     (if is_set prefix
      then andThen (entries (snd obj))
             (\<lambda>es. Inr (Created,
                         Obj (fromEntries (filter (\<lambda>(k, v). startsWith k (the prefix)) es))))
      else Inr obj)"

definition pickLabel_ref ::
  "origin \<times> jsval \<Rightarrow> string option \<Rightarrow> error + origin \<times> jsval" where
  "pickLabel_ref obj label =
     (if is_set label then andThen (get_prop (snd obj) (the label)) (\<lambda>v. Inr (Part, v))
      else Inr obj)"

definition pickLabeledAndPrefixed_ref ::
  "jsval \<Rightarrow> string option \<Rightarrow> string option \<Rightarrow> error + origin \<times> jsval" where
  "pickLabeledAndPrefixed_ref obj label prefix =
     andThen (pickLabel_ref (Given, obj) label)
       (\<lambda>picked. andThen (filterByPrefix_ref picked prefix)
                   (\<lambda>kept. removePrefix_ref kept prefix))"

section \<open>types.ts\<close>

fun isFunction :: "jsval \<Rightarrow> bool" where
  "isFunction c = (typeof c = ''function'')"

fun isClass :: "jsval \<Rightarrow> bool" where
  "isClass (Cls n st fs) = True"
| "isClass _ = False"

definition isAsyncParams :: "jsval \<Rightarrow> error + bool" where
  "isAsyncParams o' = andThen (get_prop o' ''useFactory'') (\<lambda>f. Inr (isFunction f))"

definition isSmartConfig :: "jsval \<Rightarrow> bool" where
  "isSmartConfig c = isClass c"

definition isSmartImport :: "jsval \<Rightarrow> bool" where
  "isSmartImport c = (isFunction c \<and> \<not> isClass c)"

definition isExtendedSmartConfig :: "jsval \<Rightarrow> error + bool" where
  "isExtendedSmartConfig c =
     andThen (get_prop c ''smartConfig'') (\<lambda>sc. Inr (truthy sc \<and> isSmartConfig sc))"

definition isExtendedSmartImport :: "jsval \<Rightarrow> error + bool" where
  "isExtendedSmartImport c =
     andThen (get_prop c ''smartImport'') (\<lambda>si. Inr (truthy si \<and> isSmartImport si))"

section \<open>modules.ts: the configuration instantiator\<close>

text \<open>
  \<open>new config()\<close> for a class gives an object with the declared defaults; \<open>config\<close> is a
  class by its type, and \<open>new\<close> on a value that is no constructor throws.
\<close>

fun new_instance :: "jsval \<Rightarrow> error + props" where
  "new_instance (Cls n st fs) = Inr fs"
| "new_instance _ = Inl TypeError"

definition applyPropsToSmartConfig :: "jsval \<Rightarrow> jsval \<Rightarrow> error + jsval" where
  "applyPropsToSmartConfig config overrideObj =
     andThen (new_instance config)
       (\<lambda>defaults. andThen (entries overrideObj)
          (\<lambda>es. Inr (Obj (spread defaults
                   (fromEntries (filter (\<lambda>(k, val). val \<noteq> Undefined) es))))))"

definition instantiateSmartConfig :: "jsval \<Rightarrow> jsval \<Rightarrow> error + jsval" where
  "instantiateSmartConfig config arg =
     andThen (get_prop config ''label'')
       (\<lambda>label. andThen (get_prop config ''prefix'')
          (\<lambda>prefix. andThen (pickLabeledAndPrefixed arg (opt_string label) (opt_string prefix))
             (applyPropsToSmartConfig config)))"

definition instantiateExtendedSmartConfig :: "jsval \<Rightarrow> jsval \<Rightarrow> error + jsval" where
  "instantiateExtendedSmartConfig config arg =
     andThen (get_prop config ''smartConfig'')
       (\<lambda>smartConfig. andThen (get_prop config ''label'')
          (\<lambda>label. andThen (if typeof label = ''string'' then Inr label
                             else get_prop smartConfig ''label'')
             (\<lambda>label'. andThen (get_prop config ''prefix'')
                (\<lambda>prefix. andThen (if typeof prefix = ''string'' then Inr prefix
                                    else get_prop smartConfig ''prefix'')
                   (\<lambda>prefix'. andThen
                        (pickLabeledAndPrefixed arg (opt_string label') (opt_string prefix'))
                        (applyPropsToSmartConfig smartConfig))))))"

section \<open>Modules, providers and the store\<close>

text \<open>
  The providers this library writes are \<open>{ useValue, provide }\<close> and
  \<open>{ imports, inject, useFactory, provide }\<close>, with the fields in this order; a provider
  of a descriptor is copied through and never inspected.
\<close>

datatype provider =
    ValueProvider jsval jsval
  | FactoryProvider jsval jsval jsval jsval
  | OtherProvider jsval

text \<open>
  A module descriptor (\<open>SmartModule\<close>) and the module built from it (\<open>DynamicModule\<close>)
  have the same keys: the result is \<open>{ module, ...moduleDefinition }\<close>. A field is
  \<open>None\<close> when the key is absent. \<open>m_imports\<close> is a reference: the address of an array
  in the store, since \<open>appendImports\<close> pushes onto the array it finds. The entries of such
  an array are modules; a class imported as it is stands as a module with its \<open>module\<close> key
  only. The library never looks into an entry.
\<close>

record dmodule =
  m_module :: "jsval option"
  m_imports :: "nat option"
  m_providers :: "provider list option"
  m_exports :: "jsval list option"
  m_controllers :: "jsval list option"
  m_global :: "bool option"
  smartConfigs :: "jsval list option"
  smartImports :: "jsval list option"

text \<open>
  The store: the arrays of imported modules by address, the next free address, and
  whatever else user code (a module factory, a nested-module function) can change.
\<close>

record 'w state =
  heap :: "nat \<Rightarrow> dmodule list"
  nxt :: nat
  world :: 'w

definition alloc :: "dmodule list \<Rightarrow> 'w state \<Rightarrow> nat \<times> 'w state" where
  "alloc xs s = (nxt s, s\<lparr>heap := (heap s)(nxt s := xs), nxt := Suc (nxt s)\<rparr>)"

text \<open>\<open>module.imports.push(...imports)\<close>\<close>

definition push :: "nat \<Rightarrow> dmodule list \<Rightarrow> 'w state \<Rightarrow> 'w state" where
  "push a xs s = s\<lparr>heap := (heap s)(a := heap s a @ xs)\<rparr>"

definition appendImports ::
  "dmodule \<Rightarrow> dmodule list \<Rightarrow> 'w state \<Rightarrow> dmodule \<times> 'w state" where
  "appendImports module imports s =
     (case m_imports module of
        None \<Rightarrow> (let (a, s') = alloc imports s in (module\<lparr>m_imports := Some a\<rparr>, s'))
      | Some a \<Rightarrow> (module, push a imports s))"

section \<open>modules.ts: the module synthesizer\<close>

definition empty_module :: dmodule where
  "empty_module =
     \<lparr>m_module = None, m_imports = None, m_providers = None, m_exports = None,
      m_controllers = None, m_global = None, smartConfigs = None, smartImports = None\<rparr>"

fun class_name :: "jsval \<Rightarrow> string" where
  "class_name (Cls n st fs) = n"
| "class_name _ = []"

text \<open>\<open>a || b\<close>\<close>

definition or_else :: "jsval \<Rightarrow> jsval \<Rightarrow> jsval" where
  "or_else a b = (if truthy a then a else b)"

text \<open>
  The two \<open>throw new Error(`...`)\<close> statements. The template is evaluated before the error
  exists: \<open>JSON.stringify\<close> of the base, \<open>typeof\<close>, \<open>JSON.stringify\<close> of the input. When one
  of the two calls throws, its TypeError is what leaves the function.
\<close>

definition config_error :: "jsval \<Rightarrow> jsval \<Rightarrow> error" where
  "config_error smartConfigBase arg =
     (if \<not> serialisable smartConfigBase then TypeError
      else if \<not> serialisable arg then TypeError
      else InvalidConfigSource
             [Lit ''SmartConfig: '', Json smartConfigBase, Lit '' of ['',
              Lit (typeof smartConfigBase), Lit ''], '', Json arg,
              Lit '' is not valid smart config base for module''])"

definition import_error :: "jsval \<Rightarrow> jsval \<Rightarrow> error" where
  "import_error smartImportBase arg =
     (if \<not> serialisable smartImportBase then TypeError
      else if \<not> serialisable arg then TypeError
      else InvalidImportSource
             [Lit ''SmartImport: '', Json smartImportBase, Lit '' of ['',
              Lit (typeof smartImportBase), Lit ''], '', Json arg,
              Lit '' is not valid smart import base for module''])"

definition config_module :: "string \<Rightarrow> provider \<Rightarrow> jsval \<Rightarrow> dmodule" where
  "config_module name p tok =
     empty_module\<lparr>m_module := Some (createNamedClass (name @ ''SmartConfigModule'')),
                  m_providers := Some [p], m_exports := Some [tok]\<rparr>"

definition moduleFromSmartConfig :: "jsval \<Rightarrow> jsval \<Rightarrow> error + dmodule" where
  "moduleFromSmartConfig smartConfigBase arg =
     (if isSmartConfig smartConfigBase then
        andThen (isAsyncParams arg) (\<lambda>async.
        andThen (get_prop smartConfigBase ''token'') (\<lambda>token.
          if async then
            andThen (get_prop arg ''imports'') (\<lambda>imports.
            andThen (get_prop arg ''inject'') (\<lambda>inject.
            andThen (get_prop arg ''useFactory'') (\<lambda>useFactory.
              Inr (config_module (class_name smartConfigBase)
                     (FactoryProvider imports inject
                        (SmartConfigFactory smartConfigBase useFactory)
                        (or_else token smartConfigBase))
                     (or_else token smartConfigBase)))))
          else
            andThen (instantiateSmartConfig smartConfigBase arg) (\<lambda>useValue.
              Inr (config_module (class_name smartConfigBase)
                     (ValueProvider useValue (or_else token smartConfigBase))
                     (or_else token smartConfigBase)))))
      else
        andThen (isExtendedSmartConfig smartConfigBase) (\<lambda>extended.
          if extended then
            andThen (isAsyncParams arg) (\<lambda>async.
            andThen (get_prop smartConfigBase ''smartConfig'') (\<lambda>smartConfig.
            andThen (get_prop smartConfigBase ''token'') (\<lambda>token.
              if async then
                andThen (get_prop arg ''imports'') (\<lambda>imports.
                andThen (get_prop arg ''inject'') (\<lambda>inject.
                andThen (get_prop arg ''useFactory'') (\<lambda>useFactory.
                  Inr (config_module (class_name smartConfig)
                         (FactoryProvider imports inject
                            (ExtendedConfigFactory smartConfigBase useFactory)
                            (or_else token smartConfig))
                         (or_else token smartConfig)))))
              else
                andThen (instantiateExtendedSmartConfig smartConfigBase arg) (\<lambda>useValue.
                  Inr (config_module (class_name smartConfig)
                         (ValueProvider useValue (or_else token smartConfig))
                         (or_else token smartConfig))))))
          else Inl (config_error smartConfigBase arg)))"

text \<open>
  Calling a function value and awaiting what it returns: \<open>Inl\<close> is a throw or a
  rejected promise. \<open>\<Psi>\<close> gives the behaviour of the user's own functions; a class
  constructor cannot be called without \<open>new\<close>.
\<close>

fun call_fn :: "(string \<Rightarrow> jsval list \<Rightarrow> error + jsval) \<Rightarrow> jsval \<Rightarrow> jsval list \<Rightarrow> error + jsval" where
  "call_fn \<Psi> (Fn n) args = \<Psi> n args"
| "call_fn \<Psi> (SmartConfigFactory smartConfigBase useFactory) args =
     andThen (call_fn \<Psi> useFactory args) (instantiateSmartConfig smartConfigBase)"
| "call_fn \<Psi> (ExtendedConfigFactory smartConfigBase useFactory) args =
     andThen (call_fn \<Psi> useFactory args) (instantiateExtendedSmartConfig smartConfigBase)"
| "call_fn \<Psi> (PickFactory smartImportBase useFactory) args =
     andThen (call_fn \<Psi> useFactory args) (\<lambda>resolved.
     andThen (get_prop smartImportBase ''label'') (\<lambda>label.
     andThen (get_prop smartImportBase ''prefix'') (\<lambda>prefix.
       pickLabeledAndPrefixed resolved (opt_string label) (opt_string prefix))))"
| "call_fn \<Psi> _ args = Inl TypeError"

text \<open>
  A nested-module function is user code: it returns a module or throws, and may change
  the store. \<open>\<Phi> f v\<close> is the call \<open>f(v)\<close>.
\<close>

type_synonym 'w import_env = "jsval \<Rightarrow> jsval \<Rightarrow> 'w state \<Rightarrow> (error + dmodule) \<times> 'w state"

definition moduleFromSmartImport ::
  "'w import_env \<Rightarrow> jsval \<Rightarrow> jsval \<Rightarrow> 'w state \<Rightarrow> (error + dmodule) \<times> 'w state" where
  "moduleFromSmartImport \<Phi> smartImportBase arg s =
     (if isSmartImport smartImportBase then \<Phi> smartImportBase arg s
      else
        (case isExtendedSmartImport smartImportBase of
           Inl e \<Rightarrow> (Inl e, s)
         | Inr False \<Rightarrow> (Inl (import_error smartImportBase arg), s)
         | Inr True \<Rightarrow>
             (case andThen (isAsyncParams arg) (\<lambda>async.
                   andThen (get_prop smartImportBase ''smartImport'') (\<lambda>smartImport.
                   if async then
                     andThen (get_prop arg ''imports'') (\<lambda>imports.
                     andThen (get_prop arg ''inject'') (\<lambda>inject.
                     andThen (get_prop arg ''useFactory'') (\<lambda>useFactory.
                       Inr (smartImport,
                            Obj [(''imports'', imports), (''inject'', inject),
                                 (''useFactory'', PickFactory smartImportBase useFactory)]))))
                   else
                     andThen (get_prop smartImportBase ''label'') (\<lambda>label.
                     andThen (get_prop smartImportBase ''prefix'') (\<lambda>prefix.
                     andThen (pickLabeledAndPrefixed arg (opt_string label) (opt_string prefix))
                       (\<lambda>picked. Inr (smartImport, picked)))))) of
                Inl e \<Rightarrow> (Inl e, s)
              | Inr (smartImport, arg') \<Rightarrow> \<Phi> smartImport arg' s)))"

section \<open>smartModule.ts: the composition closure\<close>

fun map_state ::
  "('a \<Rightarrow> 's \<Rightarrow> (error + 'b) \<times> 's) \<Rightarrow> 'a list \<Rightarrow> 's \<Rightarrow> (error + 'b list) \<times> 's" where
  "map_state f [] s = (Inr [], s)"
| "map_state f (x # xs) s =
     (case f x s of
        (Inl e, s1) \<Rightarrow> (Inl e, s1)
      | (Inr y, s1) \<Rightarrow>
          (case map_state f xs s1 of
             (Inl e, s2) \<Rightarrow> (Inl e, s2)
           | (Inr ys, s2) \<Rightarrow> (Inr (y # ys), s2)))"

text \<open>
  The last argument of \<open>smartModule\<close>: a descriptor, or a factory
  \<open>(imports, ...smartConfigs) => descriptor\<close>. The factory is user code: it receives the
  array of inline modules by reference and the instantiated inline configurations, and it
  may throw and change the store.
\<close>

datatype 'w module_or_factory =
    Static dmodule
  | Factory "nat \<Rightarrow> jsval list \<Rightarrow> 'w state \<Rightarrow> (error + dmodule) \<times> 'w state"

text \<open>\<open>isSmartModule(x)\<close> is \<open>!isFunction(x)\<close>: the test on the constructor.\<close>

fun isSmartModule :: "'w module_or_factory \<Rightarrow> bool" where
  "isSmartModule (Static d) = True"
| "isSmartModule (Factory f) = False"

definition opt_list :: "'a list option \<Rightarrow> 'a list" where
  "opt_list xs = (case xs of None \<Rightarrow> [] | Some ys \<Rightarrow> ys)"

text \<open>\<open>{ module, ...moduleDefinition }\<close>: a \<open>module\<close> key of the descriptor wins.\<close>

definition with_module :: "jsval \<Rightarrow> dmodule \<Rightarrow> dmodule" where
  "with_module module moduleDefinition =
     (case m_module moduleDefinition of
        None \<Rightarrow> moduleDefinition\<lparr>m_module := Some module\<rparr>
      | Some m \<Rightarrow> moduleDefinition)"

text \<open>\<open>(this?.name || '') + 'SmartModule'\<close>, for a holder whose name is a string.\<close>

definition closure_module_name :: "string option \<Rightarrow> string" where
  "closure_module_name this_name = (if is_set this_name then the this_name else []) @ ''SmartModule''"

text \<open>
  The two lines that every branch of the closure repeats after it has its descriptor:
  one module per entry of \<open>smartConfigs\<close>, then one per entry of \<open>smartImports\<close>.
\<close>

definition declared_modules ::
  "'w import_env \<Rightarrow> dmodule \<Rightarrow> jsval \<Rightarrow> 'w state \<Rightarrow> (error + dmodule list \<times> dmodule list) \<times> 'w state" where
  "declared_modules \<Phi> moduleDefinition arg s =
     (case map_err (\<lambda>c. moduleFromSmartConfig c arg) (opt_list (smartConfigs moduleDefinition)) of
        Inl e \<Rightarrow> (Inl e, s)
      | Inr smartConfigModules \<Rightarrow>
          (case map_state (\<lambda>c. moduleFromSmartImport \<Phi> c arg)
                  (opt_list (smartImports moduleDefinition)) s of
             (Inl e, s1) \<Rightarrow> (Inl e, s1)
           | (Inr smartImportModules, s1) \<Rightarrow> (Inr (smartConfigModules, smartImportModules), s1)))"

text \<open>
  The factory branches: the factory is called once for \<open>smartConfigs\<close> and
  \<open>smartImports\<close>, and once more inside the object literal handed to \<open>appendImports\<close>;
  the array literal \<open>[...inlineSmartConfigModules, ...]\<close> is read after that.
\<close>

definition from_factory ::
  "'w import_env \<Rightarrow> (nat \<Rightarrow> jsval list \<Rightarrow> 'w state \<Rightarrow> (error + dmodule) \<times> 'w state) \<Rightarrow>
   jsval \<Rightarrow> nat \<Rightarrow> jsval list \<Rightarrow> jsval \<Rightarrow> 'w state \<Rightarrow> (error + dmodule) \<times> 'w state" where
  "from_factory \<Phi> smartModuleOrFactory module a instances arg s =
     (case smartModuleOrFactory a instances s of
        (Inl e, s1) \<Rightarrow> (Inl e, s1)
      | (Inr moduleDefinition, s1) \<Rightarrow>
          (case declared_modules \<Phi> moduleDefinition arg s1 of
             (Inl e, s2) \<Rightarrow> (Inl e, s2)
           | (Inr (smartConfigModules, smartImportModules), s2) \<Rightarrow>
               (case smartModuleOrFactory a instances s2 of
                  (Inl e, s3) \<Rightarrow> (Inl e, s3)
                | (Inr moduleDefinition', s3) \<Rightarrow>
                    (let (m, s4) = appendImports (with_module module moduleDefinition')
                                     (heap s3 a @ smartConfigModules @ smartImportModules) s3
                     in (Inr m, s4)))))"

text \<open>
  \<open>smartModule(...inlineSmartConfigs, smartModuleOrFactory)\<close> returns a closure;
  \<open>smartModule \<Phi> inlineSmartConfigs smartModuleOrFactory this_name arg\<close> is one call of
  that closure with \<open>arg\<close>. The array of inline modules is put in the store where its
  reference leaves the closure, that is, in the factory branches.
\<close>

definition smartModule ::
  "'w import_env \<Rightarrow> jsval list \<Rightarrow> 'w module_or_factory \<Rightarrow> string option \<Rightarrow> jsval \<Rightarrow>
   'w state \<Rightarrow> (error + dmodule) \<times> 'w state" where
  "smartModule \<Phi> inlineSmartConfigs smartModuleOrFactory this_name arg s =
     (let module = createNamedClass (closure_module_name this_name) in
      case map_err (\<lambda>c. moduleFromSmartConfig c arg) inlineSmartConfigs of
        Inl e \<Rightarrow> (Inl e, s)
      | Inr inlineSmartConfigModules \<Rightarrow>
          (case smartModuleOrFactory of
             Static moduleDefinition \<Rightarrow>
               (case declared_modules \<Phi> moduleDefinition arg s of
                  (Inl e, s1) \<Rightarrow> (Inl e, s1)
                | (Inr (smartConfigModules, smartImportModules), s1) \<Rightarrow>
                    (let (m, s2) = appendImports (with_module module moduleDefinition)
                                     (inlineSmartConfigModules @ smartConfigModules
                                      @ smartImportModules) s1
                     in (Inr m, s2)))
           | Factory f \<Rightarrow>
               (let (a, s0) = alloc inlineSmartConfigModules s in
                case isAsyncParams arg of
                  Inl e \<Rightarrow> (Inl e, s0)
                | Inr True \<Rightarrow> from_factory \<Phi> f module a [] arg s0
                | Inr False \<Rightarrow>
                    (case map_err (\<lambda>c. if isSmartConfig c then instantiateSmartConfig c arg
                                        else instantiateExtendedSmartConfig c arg)
                            inlineSmartConfigs of
                       Inl e \<Rightarrow> (Inl e, s0)
                     | Inr inlineSmartConfigInstances \<Rightarrow>
                         from_factory \<Phi> f module a inlineSmartConfigInstances arg s0))))"


section \<open>Values used in the examples\<close>

text \<open>Two schemas as in the repository's tests: one plain, one with a static token.\<close>

definition Config :: jsval where
  "Config = Cls ''Config'' [] [(''value'', Str ''default''), (''kept'', Num 1)]"

definition ConfigWithStaticToken :: jsval where
  "ConfigWithStaticToken =
     Cls ''ConfigWithStaticToken'' [(''token'', Str ''STATIC_TOKEN'')]
       [(''defaultProp'', Str ''default'')]"

text \<open>The modules that \<open>moduleFromSmartConfig\<close> builds from them on the input \<open>{}\<close>.\<close>

definition ConfigModule :: dmodule where
  "ConfigModule =
     config_module ''Config''
       (ValueProvider (Obj [(''value'', Str ''default''), (''kept'', Num 1)]) Config) Config"


text \<open>An asynchronous-resolution descriptor, its factory, and the module built from it.\<close>

definition AsyncArg :: jsval where
  "AsyncArg = Obj [(''imports'', Arr [Str ''DbModule'']), (''inject'', Arr [Str ''DB'']),
                   (''useFactory'', Fn ''loadConfig'')]"

definition user_fns :: "string \<Rightarrow> jsval list \<Rightarrow> error + jsval" where
  "user_fns n args = Inr (Obj [(''value'', Str ''async'')])"

definition AsyncConfigModule :: dmodule where
  "AsyncConfigModule =
     config_module ''Config''
       (FactoryProvider (Arr [Str ''DbModule'']) (Arr [Str ''DB''])
          (SmartConfigFactory Config (Fn ''loadConfig'')) Config) Config"

text \<open>
  Stores and nested-module functions: an empty store; a store whose array 0 is a
  descriptor's declared imports \<open>[ExternalModule]\<close>; nested-module functions that throw,
  or return a fixed module.
\<close>

definition ExternalModule :: dmodule where
  "ExternalModule = empty_module\<lparr>m_module := Some (Cls ''ExternalModule'' [] [])\<rparr>"

definition NestedModule :: dmodule where
  "NestedModule = empty_module\<lparr>m_module := Some (Cls ''NestedSmartModule'' [] [])\<rparr>"

definition NoStore :: "unit state" where
  "NoStore = \<lparr>heap = (\<lambda>a. []), nxt = 0, world = ()\<rparr>"

definition Store1 :: "unit state" where
  "Store1 = \<lparr>heap = (\<lambda>a. if a = 0 then [ExternalModule] else []), nxt = 1, world = ()\<rparr>"

definition no_imports :: "unit import_env" where
  "no_imports f v s = (Inl (Thrown (Str ''not called'')), s)"


text \<open>
  \<open>smartModule({ imports: [ExternalModule], smartConfigs: [Config] })\<close>, called twice
  with \<open>{}\<close>, the second time in the store the first call left.
\<close>

definition StaticWithImports :: dmodule where
  "StaticWithImports = empty_module\<lparr>m_imports := Some 0, smartConfigs := Some [Config]\<rparr>"

definition first_call :: "(error + dmodule) \<times> unit state" where
  "first_call = smartModule no_imports [] (Static StaticWithImports) None (Obj []) Store1"

definition second_call :: "(error + dmodule) \<times> unit state" where
  "second_call =
     smartModule no_imports [] (Static StaticWithImports) None (Obj []) (snd first_call)"





text \<open>
  For the claims on how the user factory is called, the part of the store that user code
  owns is a log: a factory that appends to it the array reference it receives, what that
  array holds, and its further arguments.
\<close>

type_synonym call_log = "(nat \<times> dmodule list \<times> jsval list) list"

definition logging_factory ::
  "nat \<Rightarrow> jsval list \<Rightarrow> call_log state \<Rightarrow> (error + dmodule) \<times> call_log state" where
  "logging_factory a configs s =
     (Inr (empty_module\<lparr>m_exports := Some [Str ''Service'']\<rparr>),
      s\<lparr>world := world s @ [(a, heap s a, configs)]\<rparr>)"

definition quiet_env :: "call_log import_env" where
  "quiet_env f v s = (Inr NestedModule, s)"

definition LogStore :: "call_log state" where
  "LogStore = \<lparr>heap = (\<lambda>a. []), nxt = 0, world = []\<rparr>"

definition plain_call :: "(error + dmodule) \<times> call_log state" where
  "plain_call = smartModule quiet_env [Config] (Factory logging_factory) None (Obj []) LogStore"

definition async_call :: "(error + dmodule) \<times> call_log state" where
  "async_call = smartModule quiet_env [Config] (Factory logging_factory) None AsyncArg LogStore"

text \<open>
  An extended reference with a label and a prefix; an object that holds itself under
  \<open>self\<close>; a logging factory whose descriptor declares the string \<open>'oops'\<close> as a schema;
  and two calls of a closure over a factory: one with the input \<open>undefined\<close>, one with
  that factory.
\<close>

definition ExtendedConfig :: jsval where
  "ExtendedConfig =
     Obj [(''smartConfig'', Config), (''label'', Str ''testLabel''), (''prefix'', Str ''test_'')]"

definition Cyclic :: jsval where
  "Cyclic = SelfObj [(''name'', Str ''app'')] ''self''"

definition bad_factory ::
  "nat \<Rightarrow> jsval list \<Rightarrow> call_log state \<Rightarrow> (error + dmodule) \<times> call_log state" where
  "bad_factory a configs s =
     (Inr (empty_module\<lparr>smartConfigs := Some [Str ''oops'']\<rparr>),
      s\<lparr>world := world s @ [(a, heap s a, configs)]\<rparr>)"



section \<open>Property lists\<close>

lemma andThen_simps [simp]:
  "andThen (Inl e) f = Inl e"
  "andThen (Inr v) f = f v"
  by (simp_all add: andThen_def)

lemma map_of_set_prop: "map_of (set_prop k v ps) = (map_of ps)(k \<mapsto> v)"
  by (induction ps) (auto simp: fun_eq_iff)

lemma set_prop_fresh: "k \<notin> fst ` set ps \<Longrightarrow> set_prop k v ps = ps @ [(k, v)]"
  by (induction ps) auto

lemma spread_distinct: "distinct (map fst (a @ b)) \<Longrightarrow> spread a b = a @ b"
proof (induction b arbitrary: a)
  case Nil
  then show ?case by (simp add: spread_def)
next
  case (Cons x b)
  obtain k v where x: "x = (k, v)" by (cases x)
  from Cons.prems x have fresh: "k \<notin> fst ` set a" by auto
  from Cons.prems x have d: "distinct (map fst ((a @ [(k, v)]) @ b))" by auto
  have "spread a (x # b) = spread (set_prop k v a) b"
    by (simp add: spread_def x)
  also have "\<dots> = spread (a @ [(k, v)]) b"
    using fresh by (simp add: set_prop_fresh)
  also have "\<dots> = (a @ [(k, v)]) @ b"
    using Cons.IH [OF d] .
  finally show ?case by (simp add: x)
qed

lemma fromEntries_wf: "wf_props es \<Longrightarrow> fromEntries es = es"
  using spread_distinct [of "[]" es] by (simp add: fromEntries_def wf_props_def)

lemma map_of_spread:
  "map_of (spread a b) = map_of a ++ map_of (rev b)"
proof (induction b arbitrary: a)
  case Nil
  then show ?case by (simp add: spread_def)
next
  case (Cons x b)
  obtain k v where x: "x = (k, v)" by (cases x)
  have "map_of (spread a (x # b)) = map_of (spread (set_prop k v a) b)"
    by (simp add: spread_def x)
  also have "\<dots> = map_of (set_prop k v a) ++ map_of (rev b)"
    by (rule Cons.IH)
  also have "\<dots> = map_of a ++ map_of (rev (x # b))"
    by (simp add: map_of_set_prop x fun_eq_iff map_add_def split: option.splits)
  finally show ?case .
qed


lemma wf_filter: "wf_props es \<Longrightarrow> wf_props (filter P es)"
  by (simp add: wf_props_def distinct_map_filter)

lemma startsWith_drop: "startsWith k p \<Longrightarrow> p @ drop (length p) k = k"
  unfolding startsWith_def by (metis append_take_drop_id)

lemma wf_strip:
  assumes "wf_props es" and "\<forall>(k, v) \<in> set es. startsWith k p"
  shows "wf_props (map (\<lambda>(k, v). (drop (length p) k, v)) es)"
proof -
  have inj: "inj_on (drop (length p)) (fst ` set es)"
  proof (rule inj_onI)
    fix a b assume a: "a \<in> fst ` set es" and b: "b \<in> fst ` set es"
      and eq: "drop (length p) a = drop (length p) b"
    from a assms(2) have "startsWith a p" by auto
    moreover from b assms(2) have "startsWith b p" by auto
    ultimately show "a = b" using eq by (metis startsWith_drop)
  qed
  have eq: "map fst (map (\<lambda>(k, v). (drop (length p) k, v)) es) = map (drop (length p)) (map fst es)"
    by (induction es) auto
  have d: "distinct (map fst es)"
    using assms(1) by (simp add: wf_props_def)
  have "distinct (map (drop (length p)) (map fst es))"
    by (rule iffD2 [OF distinct_map]) (use d inj in simp)
  then show ?thesis
    unfolding wf_props_def eq .
qed

lemma map_of_rev_distinct: "distinct (map fst b) \<Longrightarrow> map_of (rev b) = map_of b"
proof (induction b)
  case Nil
  then show ?case by simp
next
  case (Cons x b)
  obtain k v where x: "x = (k, v)" by (cases x)
  from Cons.prems x have "map_of b k = None"
    by (simp add: map_of_eq_None_iff)
  with Cons show ?case
    by (auto simp: x fun_eq_iff map_add_def split: option.splits)
qed


lemma extract_object:
  assumes "wf_props es" and "p \<noteq> []"
  shows "pickLabeledAndPrefixed (Obj es) None (Some p) =
         Inr (Obj (map (\<lambda>(k, v). (drop (length p) k, v)) (filter (\<lambda>(k, v). startsWith k p) es)))"
proof -
  let ?kept = "filter (\<lambda>(k, v). startsWith k p) es"
  have wk: "wf_props ?kept" using assms(1) by (rule wf_filter)
  have "\<forall>(k, v) \<in> set ?kept. startsWith k p" by auto
  with wk have ws: "wf_props (map (\<lambda>(k, v). (drop (length p) k, v)) ?kept)"
    by (rule wf_strip)
  show ?thesis
    using assms(2) by (simp add: pickLabeledAndPrefixed_def pickLabel_def filterByPrefix_def
        removePrefix_def fromEntries_wf [OF wk] fromEntries_wf [OF ws])
qed

section \<open>The namespacing engine\<close>

lemma pickLabeledAndPrefixed_unset:
  "\<not> is_set label \<Longrightarrow> \<not> is_set prefix \<Longrightarrow> pickLabeledAndPrefixed input label prefix = Inr input"
  by (simp add: pickLabeledAndPrefixed_def pickLabel_def filterByPrefix_def removePrefix_def)

lemma pickLabeledAndPrefixed_label_only:
  "pickLabeledAndPrefixed input label None = pickLabel input label"
  by (cases "pickLabel input label")
     (simp_all add: pickLabeledAndPrefixed_def filterByPrefix_def removePrefix_def)

lemma pickLabeledAndPrefixed_prefix_only:
  "pickLabeledAndPrefixed picked None prefix =
     andThen (filterByPrefix picked prefix) (\<lambda>kept. removePrefix kept prefix)"
  by (simp add: pickLabeledAndPrefixed_def pickLabel_def)

text \<open>
  Claim C3 as stated fails: with the label \<open>db\<close> requested on \<open>undefined\<close>, the call throws
  instead of returning \<open>undefined\<close>.
\<close>

theorem extract_undefined_label_counterexample:
  "pickLabeledAndPrefixed Undefined (Some ''db'') None = Inl TypeError"
  by (simp add: pickLabeledAndPrefixed_def pickLabel_def)

text \<open>
  Claim C3, as amended. On an input that is \<open>undefined\<close> or \<open>null\<close>, extraction throws a
  TypeError as soon as a label or a prefix is set: with a label at the property read of
  \<open>pickLabel\<close>, with a prefix alone at \<open>Object.entries\<close> in \<open>filterByPrefix\<close>. Only when
  neither is set does the call return, and then it returns the input itself.
\<close>

theorem extract_nullish_input:
  "nullish input \<longrightarrow>
     pickLabeledAndPrefixed input label prefix =
       (if is_set label \<or> is_set prefix then Inl TypeError else Inr input)"
  by (cases input)
     (simp_all add: pickLabeledAndPrefixed_def pickLabel_def filterByPrefix_def removePrefix_def)

theorem extract_nullish_input_witness:
  "nullish Null \<and> is_set (Some ''db'')
   \<and> pickLabeledAndPrefixed Null (Some ''db'') (Some ''p_'') = Inl TypeError
   \<and> pickLabeledAndPrefixed Null (Some ''db'') None = Inl TypeError
   \<and> pickLabeledAndPrefixed Null None (Some ''p_'') = Inl TypeError
   \<and> nullish Undefined \<and> \<not> is_set (Some []) \<and> \<not> is_set None
   \<and> pickLabeledAndPrefixed Undefined (Some []) (Some ''p_'') = Inl TypeError
   \<and> pickLabeledAndPrefixed Undefined (Some []) None = Inr Undefined"
  using extract_nullish_input [of Null "Some ''db''" "Some ''p_''"]
    extract_nullish_input [of Null "Some ''db''" None]
    extract_nullish_input [of Null None "Some ''p_''"]
    extract_nullish_input [of Undefined "Some []" "Some ''p_''"]
    extract_nullish_input [of Undefined "Some []" None]
  by simp

lemma pickLabeledAndPrefixed_ref_value:
  "andThen (pickLabeledAndPrefixed_ref obj label prefix) (\<lambda>r. Inr (snd r))
     = pickLabeledAndPrefixed obj label prefix"
  by (simp add: pickLabeledAndPrefixed_ref_def pickLabeledAndPrefixed_def pickLabel_ref_def
      pickLabel_def filterByPrefix_ref_def filterByPrefix_def removePrefix_ref_def
      removePrefix_def andThen_def split: sum.splits)

lemma pickLabeledAndPrefixed_ref_unset:
  "\<not> is_set label \<Longrightarrow> \<not> is_set prefix \<Longrightarrow>
   pickLabeledAndPrefixed_ref input label prefix = Inr (Given, input)"
  by (simp add: pickLabeledAndPrefixed_ref_def pickLabel_ref_def filterByPrefix_ref_def
      removePrefix_ref_def)

lemma pickLabeledAndPrefixed_ref_set:
  "is_set label \<or> is_set prefix \<Longrightarrow>
   pickLabeledAndPrefixed_ref input label prefix \<noteq> Inr (Given, v)"
  by (auto simp: pickLabeledAndPrefixed_ref_def pickLabel_ref_def filterByPrefix_ref_def
      removePrefix_ref_def andThen_def split: sum.splits)

lemma extract_label_object:
  assumes "l \<noteq> []" and "p \<noteq> []" and "map_of ps l = Some (Obj es)" and "wf_props es"
  shows "pickLabeledAndPrefixed (Obj ps) (Some l) (Some p) =
         Inr (Obj (map (\<lambda>(k, v). (drop (length p) k, v))
                     (filter (\<lambda>(k, v). take (length p) k = p) es)))"
proof -
  have "pickLabeledAndPrefixed (Obj ps) (Some l) (Some p) =
          pickLabeledAndPrefixed (Obj es) None (Some p)"
    using assms(1,3) by (simp add: pickLabeledAndPrefixed_def pickLabel_def lookup_def)
  also have "\<dots> = Inr (Obj (map (\<lambda>(k, v). (drop (length p) k, v))
                     (filter (\<lambda>(k, v). startsWith k p) es)))"
    using assms(2,4) by (simp add: extract_object)
  finally show ?thesis by (simp add: startsWith_def)
qed

text \<open>
  Claim C8. With neither label nor prefix set the result is the input, and in the helpers
  that carry the identity along it is the very object given; with a label or a prefix set
  it never is, and the value the identity-carrying helpers return is the value of
  \<open>pickLabeledAndPrefixed\<close>. Extraction with label and prefix is extraction with the label
  followed by extraction with the prefix. With a label alone the result is the property
  read \<open>input[label]\<close>: for an object, the value stored under that label, or \<open>undefined\<close>
  when there is none. With a prefix alone, on an object with distinct keys, the result
  holds the entries whose key starts with the prefix, in their order, each key with the
  prefix cut off. With both, on an object whose property under the label is such an
  object, it is that filter and cut applied to the labelled property.
\<close>

theorem extract_composes:
  "(\<not> is_set label \<and> \<not> is_set prefix \<longrightarrow>
      pickLabeledAndPrefixed input label prefix = Inr input
      \<and> pickLabeledAndPrefixed_ref input label prefix = Inr (Given, input))
   \<and> (is_set label \<or> is_set prefix \<longrightarrow>
        (\<forall>v. pickLabeledAndPrefixed_ref input label prefix \<noteq> Inr (Given, v)))
   \<and> andThen (pickLabeledAndPrefixed_ref input label prefix) (\<lambda>r. Inr (snd r))
      = pickLabeledAndPrefixed input label prefix
   \<and> andThen (pickLabeledAndPrefixed input label None)
        (\<lambda>picked. pickLabeledAndPrefixed picked None prefix)
      = pickLabeledAndPrefixed input label prefix
   \<and> (is_set label \<longrightarrow>
        pickLabeledAndPrefixed input label None = get_prop input (the label)
        \<and> pickLabeledAndPrefixed (Obj ps) label None =
            Inr (case map_of ps (the label) of None \<Rightarrow> Undefined | Some v \<Rightarrow> v))
   \<and> (is_set prefix \<and> wf_props es \<longrightarrow>
        pickLabeledAndPrefixed (Obj es) None prefix =
          Inr (Obj (map (\<lambda>(k, v). (drop (length (the prefix)) k, v))
                     (filter (\<lambda>(k, v). take (length (the prefix)) k = the prefix) es))))
   \<and> (is_set label \<and> is_set prefix \<and> map_of ps (the label) = Some (Obj es) \<and> wf_props es \<longrightarrow>
        pickLabeledAndPrefixed (Obj ps) label prefix =
          Inr (Obj (map (\<lambda>(k, v). (drop (length (the prefix)) k, v))
                     (filter (\<lambda>(k, v). take (length (the prefix)) k = the prefix) es))))"
proof (intro conjI impI)
  assume h: "\<not> is_set label \<and> \<not> is_set prefix"
  then show "pickLabeledAndPrefixed input label prefix = Inr input"
    by (simp add: pickLabeledAndPrefixed_unset)
  from h show "pickLabeledAndPrefixed_ref input label prefix = Inr (Given, input)"
    by (simp add: pickLabeledAndPrefixed_ref_unset)
next
  assume "is_set label \<or> is_set prefix"
  then show "\<forall>v. pickLabeledAndPrefixed_ref input label prefix \<noteq> Inr (Given, v)"
    by (simp add: pickLabeledAndPrefixed_ref_set)
next
  show "andThen (pickLabeledAndPrefixed_ref input label prefix) (\<lambda>r. Inr (snd r))
      = pickLabeledAndPrefixed input label prefix"
    by (rule pickLabeledAndPrefixed_ref_value)
next
  show "andThen (pickLabeledAndPrefixed input label None)
          (\<lambda>picked. pickLabeledAndPrefixed picked None prefix)
        = pickLabeledAndPrefixed input label prefix"
    unfolding pickLabeledAndPrefixed_label_only pickLabeledAndPrefixed_prefix_only
    by (simp add: pickLabeledAndPrefixed_def)
next
  assume l: "is_set label"
  then show "pickLabeledAndPrefixed input label None = get_prop input (the label)"
    by (simp add: pickLabeledAndPrefixed_label_only pickLabel_def)
  from l show "pickLabeledAndPrefixed (Obj ps) label None =
            Inr (case map_of ps (the label) of None \<Rightarrow> Undefined | Some v \<Rightarrow> v)"
    by (simp add: pickLabeledAndPrefixed_label_only pickLabel_def lookup_def)
next
  assume h: "is_set prefix \<and> wf_props es"
  then obtain p where p: "prefix = Some p" "p \<noteq> []"
    by (cases prefix) auto
  with h show "pickLabeledAndPrefixed (Obj es) None prefix =
          Inr (Obj (map (\<lambda>(k, v). (drop (length (the prefix)) k, v))
                     (filter (\<lambda>(k, v). take (length (the prefix)) k = the prefix) es)))"
    by (simp add: extract_object startsWith_def)
next
  assume h: "is_set label \<and> is_set prefix \<and> map_of ps (the label) = Some (Obj es) \<and> wf_props es"
  then obtain l p where lp: "label = Some l" "l \<noteq> []" "prefix = Some p" "p \<noteq> []"
    by (cases label; cases prefix) auto
  with h show "pickLabeledAndPrefixed (Obj ps) label prefix =
          Inr (Obj (map (\<lambda>(k, v). (drop (length (the prefix)) k, v))
                     (filter (\<lambda>(k, v). take (length (the prefix)) k = the prefix) es)))"
    by (simp add: extract_label_object)
qed

theorem extract_composes_witness:
  "\<not> is_set (Some []) \<and> \<not> is_set None
   \<and> pickLabeledAndPrefixed (Obj [(''a'', Num 1)]) (Some []) None = Inr (Obj [(''a'', Num 1)])
   \<and> pickLabeledAndPrefixed_ref (Obj [(''a'', Num 1)]) (Some []) None
       = Inr (Given, Obj [(''a'', Num 1)])
   \<and> is_set (Some ''pg'') \<and> is_set (Some ''db_'')
   \<and> pickLabeledAndPrefixed
        (Obj [(''other'', Num 2), (''pg'', Obj [(''db_url'', Str ''x''), (''port'', Num 1)])])
        (Some ''pg'') None = Inr (Obj [(''db_url'', Str ''x''), (''port'', Num 1)])
   \<and> pickLabeledAndPrefixed (Obj [(''other'', Num 2)]) (Some ''pg'') None = Inr Undefined
   \<and> wf_props [(''db_url'', Str ''x''), (''port'', Num 1)]
   \<and> pickLabeledAndPrefixed (Obj [(''db_url'', Str ''x''), (''port'', Num 1)]) None (Some ''db_'')
       = Inr (Obj [(''url'', Str ''x'')])
   \<and> pickLabeledAndPrefixed
        (Obj [(''other'', Num 2), (''pg'', Obj [(''db_url'', Str ''x''), (''port'', Num 1)])])
        (Some ''pg'') (Some ''db_'') = Inr (Obj [(''url'', Str ''x'')])
   \<and> pickLabeledAndPrefixed_ref
        (Obj [(''other'', Num 2), (''pg'', Obj [(''db_url'', Str ''x''), (''port'', Num 1)])])
        (Some ''pg'') (Some ''db_'') \<noteq> Inr (Given, Obj [(''url'', Str ''x'')])"
  using extract_composes [of "Some []" None "Obj [(''a'', Num 1)]" "[]" "[]"]
    extract_composes [of "Some ''pg''" "Some ''db_''"
      "Obj [(''other'', Num 2), (''pg'', Obj [(''db_url'', Str ''x''), (''port'', Num 1)])]"
      "[(''other'', Num 2), (''pg'', Obj [(''db_url'', Str ''x''), (''port'', Num 1)])]"
      "[(''db_url'', Str ''x''), (''port'', Num 1)]"]
    extract_composes [of "Some ''pg''" "Some ''db_''" "Obj [(''other'', Num 2)]"
      "[(''other'', Num 2)]" "[(''db_url'', Str ''x''), (''port'', Num 1)]"]
  by (simp add: wf_props_def lookup_def)

section \<open>The module synthesizer\<close>

lemma map_err_invalid:
  "c \<in> set cs \<Longrightarrow> f c = Inl e \<Longrightarrow> \<exists>e'. map_err f cs = Inl e'"
  by (induction cs) (auto split: sum.splits)

lemma moduleFromSmartConfig_invalid:
  assumes "\<not> isSmartConfig c" and "isExtendedSmartConfig c = Inr False"
  shows "moduleFromSmartConfig c arg = Inl (config_error c arg)"
  using assms by (simp add: moduleFromSmartConfig_def)

lemma moduleFromSmartConfig_nullish:
  "nullish c \<Longrightarrow> moduleFromSmartConfig c arg = Inl TypeError"
  by (cases c) (simp_all add: moduleFromSmartConfig_def isSmartConfig_def isExtendedSmartConfig_def)

lemma moduleFromSmartConfig_not_valid:
  assumes "\<not> isSmartConfig c" and "isExtendedSmartConfig c \<noteq> Inr True"
  shows "\<exists>e. moduleFromSmartConfig c arg = Inl e"
proof (cases "isExtendedSmartConfig c")
  case (Inl e)
  with assms(1) show ?thesis by (simp add: moduleFromSmartConfig_def)
next
  case (Inr b)
  with assms(2) have "isExtendedSmartConfig c = Inr False" by simp
  with assms(1) show ?thesis by (simp add: moduleFromSmartConfig_invalid)
qed

lemma smartModule_inline_error:
  "map_err (\<lambda>c. moduleFromSmartConfig c arg) inl = Inl e \<Longrightarrow>
   smartModule \<Phi> inl mof this_name arg s = (Inl e, s)"
  by (simp add: smartModule_def)

lemma declared_modules_config_error:
  "map_err (\<lambda>c. moduleFromSmartConfig c arg) (opt_list (smartConfigs d)) = Inl e \<Longrightarrow>
   declared_modules \<Phi> d arg s = (Inl e, s)"
  by (simp add: declared_modules_def)

lemma smartModule_static_config_error:
  assumes "map_err (\<lambda>c. moduleFromSmartConfig c arg) (opt_list (smartConfigs d)) = Inl e"
  shows "\<exists>e'. smartModule \<Phi> inl (Static d) this_name arg s = (Inl e', s)"
  using assms
  by (cases "map_err (\<lambda>c. moduleFromSmartConfig c arg) inl")
     (simp_all add: smartModule_def declared_modules_config_error)

lemma andThen_Inl:
  "andThen r f = Inl e \<Longrightarrow> r = Inl e \<or> (\<exists>v. r = Inr v \<and> f v = Inl e)"
  by (cases r) simp_all

lemma get_prop_error: "get_prop v k = Inl e \<Longrightarrow> e = TypeError"
  by (cases v) (simp_all split: if_splits)

lemma entries_error: "entries v = Inl e \<Longrightarrow> e = TypeError"
  by (cases v) simp_all

lemma new_instance_error: "new_instance v = Inl e \<Longrightarrow> e = TypeError"
  by (cases v) simp_all

lemma isAsyncParams_error: "isAsyncParams v = Inl e \<Longrightarrow> e = TypeError"
  unfolding isAsyncParams_def by (auto dest!: andThen_Inl dest: get_prop_error)

lemma pickLabeledAndPrefixed_error:
  "pickLabeledAndPrefixed v l p = Inl e \<Longrightarrow> e = TypeError"
  unfolding pickLabeledAndPrefixed_def pickLabel_def filterByPrefix_def removePrefix_def
  by (auto dest!: andThen_Inl dest: get_prop_error entries_error split: if_splits)

lemma applyPropsToSmartConfig_error:
  "applyPropsToSmartConfig c v = Inl e \<Longrightarrow> e = TypeError"
  unfolding applyPropsToSmartConfig_def
  by (auto dest!: andThen_Inl dest: new_instance_error entries_error)

lemma instantiateSmartConfig_error:
  "instantiateSmartConfig c v = Inl e \<Longrightarrow> e = TypeError"
  unfolding instantiateSmartConfig_def
  by (auto dest!: andThen_Inl
      dest: get_prop_error pickLabeledAndPrefixed_error applyPropsToSmartConfig_error)

lemma instantiateExtendedSmartConfig_error:
  "instantiateExtendedSmartConfig c v = Inl e \<Longrightarrow> e = TypeError"
  unfolding instantiateExtendedSmartConfig_def
  by (auto dest!: andThen_Inl
      dest: get_prop_error pickLabeledAndPrefixed_error applyPropsToSmartConfig_error
      split: if_splits)

lemma moduleFromSmartConfig_valid_error:
  assumes "isSmartConfig c \<or> isExtendedSmartConfig c = Inr True"
    and "moduleFromSmartConfig c arg = Inl e"
  shows "e = TypeError"
proof (cases "isSmartConfig c")
  case True
  with assms(2) show ?thesis
    unfolding moduleFromSmartConfig_def
    by (auto dest!: andThen_Inl
        dest: get_prop_error isAsyncParams_error instantiateSmartConfig_error
        split: if_splits)
next
  case False
  with assms(1) have "isExtendedSmartConfig c = Inr True" by simp
  with False assms(2) show ?thesis
    unfolding moduleFromSmartConfig_def
    by (auto dest!: andThen_Inl
        dest: get_prop_error isAsyncParams_error instantiateExtendedSmartConfig_error
        split: if_splits)
qed

text \<open>
  Claim C1, the four combinations on the input \<open>{}\<close>. A plain schema without a token is
  provided and exported under the class itself; a plain schema with a static token, under
  that token; an extended reference with a \<open>token\<close>, under that token, whatever the
  schema's static one. An extended reference without a \<open>token\<close> that wraps the schema with
  the static token is provided and exported under the class: the static token is lost.
\<close>

theorem extended_reference_drops_static_token:
  "moduleFromSmartConfig Config (Obj []) =
     Inr (config_module ''Config''
            (ValueProvider (Obj [(''value'', Str ''default''), (''kept'', Num 1)]) Config)
            Config)
   \<and> moduleFromSmartConfig ConfigWithStaticToken (Obj []) =
       Inr (config_module ''ConfigWithStaticToken''
              (ValueProvider (Obj [(''defaultProp'', Str ''default'')]) (Str ''STATIC_TOKEN''))
              (Str ''STATIC_TOKEN''))
   \<and> moduleFromSmartConfig
         (Obj [(''smartConfig'', ConfigWithStaticToken), (''token'', Str ''OVERRIDE_TOKEN'')])
         (Obj []) =
       Inr (config_module ''ConfigWithStaticToken''
              (ValueProvider (Obj [(''defaultProp'', Str ''default'')]) (Str ''OVERRIDE_TOKEN''))
              (Str ''OVERRIDE_TOKEN''))
   \<and> moduleFromSmartConfig (Obj [(''smartConfig'', ConfigWithStaticToken)]) (Obj []) =
       Inr (config_module ''ConfigWithStaticToken''
              (ValueProvider (Obj [(''defaultProp'', Str ''default'')]) ConfigWithStaticToken)
              ConfigWithStaticToken)
   \<and> ConfigWithStaticToken \<noteq> Str ''STATIC_TOKEN''"
  by (simp add: moduleFromSmartConfig_def isSmartConfig_def isExtendedSmartConfig_def
      isAsyncParams_def lookup_def Config_def ConfigWithStaticToken_def or_else_def
      instantiateSmartConfig_def instantiateExtendedSmartConfig_def
      pickLabeledAndPrefixed_def pickLabel_def filterByPrefix_def removePrefix_def
      applyPropsToSmartConfig_def spread_def fromEntries_def)

section \<open>The configuration instantiator\<close>

lemma map_of_filter_defined:
  "distinct (map fst I) \<Longrightarrow>
   map_of (filter (\<lambda>(k, v). v \<noteq> Undefined) I) k =
     (case map_of I k of None \<Rightarrow> None | Some v \<Rightarrow> if v = Undefined then None else Some v)"
proof (induction I)
  case Nil
  then show ?case by simp
next
  case (Cons x I)
  obtain k' v' where x: "x = (k', v')" by (cases x)
  from Cons.prems x have "map_of I k' = None"
    by (simp add: map_of_eq_None_iff)
  with Cons show ?case
    by (auto simp: x split: option.splits)
qed

lemma applyPropsToSmartConfig_object:
  assumes "wf_props I"
  shows "applyPropsToSmartConfig (Cls n st D) (Obj I) =
           Inr (Obj (spread D (filter (\<lambda>(k, v). v \<noteq> Undefined) I)))"
  using wf_filter [OF assms, of "\<lambda>(k, v). v \<noteq> Undefined"]
  by (simp add: applyPropsToSmartConfig_def fromEntries_wf)

lemma filter_all_defined:
  "list_all (\<lambda>(k, v). v \<noteq> Undefined) I \<Longrightarrow> filter (\<lambda>(k, v). v \<noteq> Undefined) I = I"
  by (induction I) auto

lemma merged_lookup:
  assumes "wf_props I"
  shows "map_of (spread D (filter (\<lambda>(k, v). v \<noteq> Undefined) I)) k =
           (case map_of I k of
              None \<Rightarrow> map_of D k
            | Some v \<Rightarrow> if v = Undefined then map_of D k else Some v)"
proof -
  let ?F = "filter (\<lambda>(k, v). v \<noteq> Undefined) I"
  have d: "distinct (map fst I)"
    using assms by (simp add: wf_props_def)
  have df: "distinct (map fst ?F)"
    using wf_filter [OF assms, of "\<lambda>(k, v). v \<noteq> Undefined"] by (simp add: wf_props_def)
  show ?thesis
    by (simp add: map_of_spread map_of_rev_distinct [OF df] map_of_filter_defined [OF d]
        map_add_def split: option.splits)
qed

lemma inline_or_static:
  "opt_string (if typeof v = ''string'' then v else w) =
     (case v of Str l \<Rightarrow> Some l | _ \<Rightarrow> opt_string w)"
  by (cases v) simp_all

lemma instantiateExtendedSmartConfig_object:
  assumes "lookup ps ''smartConfig'' = Cls n st D"
  shows "instantiateExtendedSmartConfig (Obj ps) arg =
           andThen (pickLabeledAndPrefixed arg
                      (case lookup ps ''label'' of Str l \<Rightarrow> Some l
                       | _ \<Rightarrow> opt_string (lookup st ''label''))
                      (case lookup ps ''prefix'' of Str p \<Rightarrow> Some p
                       | _ \<Rightarrow> opt_string (lookup st ''prefix'')))
             (applyPropsToSmartConfig (Cls n st D))"
proof -
  have either: "andThen (if c then Inr a else Inr b) h = h (if c then a else b)"
    for c and a b :: jsval and h :: "jsval \<Rightarrow> error + jsval"
    by simp
  have "instantiateExtendedSmartConfig (Obj ps) arg =
          andThen (pickLabeledAndPrefixed arg
                     (opt_string (if typeof (lookup ps ''label'') = ''string''
                                  then lookup ps ''label'' else lookup st ''label''))
                     (opt_string (if typeof (lookup ps ''prefix'') = ''string''
                                  then lookup ps ''prefix'' else lookup st ''prefix'')))
            (applyPropsToSmartConfig (Cls n st D))"
    unfolding instantiateExtendedSmartConfig_def
    by (simp add: assms either del: if_False if_True cong: if_cong)
  then show ?thesis
    by (simp only: inline_or_static)
qed

text \<open>
  Claim C4. For a schema with defaults \<open>D\<close> and an extracted object \<open>I\<close> with distinct
  keys, the instance is \<open>{ ...D, ...defined entries of I }\<close>. Property by property: a key
  of \<open>I\<close> with a value other than \<open>undefined\<close>, \<open>null\<close> included, has the value of \<open>I\<close>,
  whether the schema declares it or not; a key that \<open>I\<close> lacks or sets to \<open>undefined\<close> has
  the schema's default, if any. When every value of \<open>I\<close> is defined the instance is
  \<open>{ ...D, ...I }\<close>. This is the result of \<open>applyPropsToSmartConfig\<close>, of
  \<open>instantiateSmartConfig\<close> when extraction with the schema's static label and prefix
  gives \<open>I\<close>, and of \<open>instantiateExtendedSmartConfig\<close> when extraction with the label and
  prefix of the reference, or the static ones where the reference has no string, gives \<open>I\<close>.
\<close>

theorem default_merge:
  "wf_props I \<longrightarrow>
     (\<exists>R. R = spread D (filter (\<lambda>(k, v). v \<noteq> Undefined) I)
        \<and> (\<forall>k. map_of R k =
              (case map_of I k of
                 None \<Rightarrow> map_of D k
               | Some v \<Rightarrow> if v = Undefined then map_of D k else Some v))
        \<and> (list_all (\<lambda>(k, v). v \<noteq> Undefined) I \<longrightarrow> R = spread D I)
        \<and> applyPropsToSmartConfig (Cls n st D) (Obj I) = Inr (Obj R)
        \<and> (pickLabeledAndPrefixed arg (opt_string (lookup st ''label''))
              (opt_string (lookup st ''prefix'')) = Inr (Obj I)
            \<longrightarrow> instantiateSmartConfig (Cls n st D) arg = Inr (Obj R))
        \<and> (lookup ps ''smartConfig'' = Cls n st D
            \<and> pickLabeledAndPrefixed arg
                 (case lookup ps ''label'' of Str l \<Rightarrow> Some l
                  | _ \<Rightarrow> opt_string (lookup st ''label''))
                 (case lookup ps ''prefix'' of Str p \<Rightarrow> Some p
                  | _ \<Rightarrow> opt_string (lookup st ''prefix'')) = Inr (Obj I)
            \<longrightarrow> instantiateExtendedSmartConfig (Obj ps) arg = Inr (Obj R)))"
proof
  assume wf: "wf_props I"
  let ?R = "spread D (filter (\<lambda>(k, v). v \<noteq> Undefined) I)"
  have look: "\<forall>k. map_of ?R k =
              (case map_of I k of
                 None \<Rightarrow> map_of D k
               | Some v \<Rightarrow> if v = Undefined then map_of D k else Some v)"
    using merged_lookup [OF wf] by blast
  have full: "list_all (\<lambda>(k, v). v \<noteq> Undefined) I \<longrightarrow> ?R = spread D I"
    by (simp add: filter_all_defined)
  have app: "applyPropsToSmartConfig (Cls n st D) (Obj I) = Inr (Obj ?R)"
    using wf by (rule applyPropsToSmartConfig_object)
  have plain: "pickLabeledAndPrefixed arg (opt_string (lookup st ''label''))
              (opt_string (lookup st ''prefix'')) = Inr (Obj I)
            \<longrightarrow> instantiateSmartConfig (Cls n st D) arg = Inr (Obj ?R)"
    by (simp add: instantiateSmartConfig_def app)
  have ext: "lookup ps ''smartConfig'' = Cls n st D
            \<and> pickLabeledAndPrefixed arg
                 (case lookup ps ''label'' of Str l \<Rightarrow> Some l
                  | _ \<Rightarrow> opt_string (lookup st ''label''))
                 (case lookup ps ''prefix'' of Str p \<Rightarrow> Some p
                  | _ \<Rightarrow> opt_string (lookup st ''prefix'')) = Inr (Obj I)
            \<longrightarrow> instantiateExtendedSmartConfig (Obj ps) arg = Inr (Obj ?R)"
    by (auto simp: instantiateExtendedSmartConfig_object app)
  from look full app plain ext
  show "\<exists>R. R = spread D (filter (\<lambda>(k, v). v \<noteq> Undefined) I)
        \<and> (\<forall>k. map_of R k =
              (case map_of I k of
                 None \<Rightarrow> map_of D k
               | Some v \<Rightarrow> if v = Undefined then map_of D k else Some v))
        \<and> (list_all (\<lambda>(k, v). v \<noteq> Undefined) I \<longrightarrow> R = spread D I)
        \<and> applyPropsToSmartConfig (Cls n st D) (Obj I) = Inr (Obj R)
        \<and> (pickLabeledAndPrefixed arg (opt_string (lookup st ''label''))
              (opt_string (lookup st ''prefix'')) = Inr (Obj I)
            \<longrightarrow> instantiateSmartConfig (Cls n st D) arg = Inr (Obj R))
        \<and> (lookup ps ''smartConfig'' = Cls n st D
            \<and> pickLabeledAndPrefixed arg
                 (case lookup ps ''label'' of Str l \<Rightarrow> Some l
                  | _ \<Rightarrow> opt_string (lookup st ''label''))
                 (case lookup ps ''prefix'' of Str p \<Rightarrow> Some p
                  | _ \<Rightarrow> opt_string (lookup st ''prefix'')) = Inr (Obj I)
            \<longrightarrow> instantiateExtendedSmartConfig (Obj ps) arg = Inr (Obj R))"
    by (intro exI [of _ ?R] conjI) (rule refl | assumption)+
qed

theorem default_merge_witness:
  "wf_props [(''value'', Undefined), (''kept'', Null), (''extra'', Str ''x'')]
   \<and> applyPropsToSmartConfig Config
        (Obj [(''value'', Undefined), (''kept'', Null), (''extra'', Str ''x'')])
     = Inr (Obj [(''value'', Str ''default''), (''kept'', Null), (''extra'', Str ''x'')])
   \<and> instantiateSmartConfig Config
        (Obj [(''value'', Undefined), (''kept'', Null), (''extra'', Str ''x'')])
     = Inr (Obj [(''value'', Str ''default''), (''kept'', Null), (''extra'', Str ''x'')])
   \<and> wf_props [(''value'', Str ''extended''), (''more'', Num 2)]
   \<and> list_all (\<lambda>(k, v). v \<noteq> Undefined) [(''value'', Str ''extended''), (''more'', Num 2)]
   \<and> pickLabeledAndPrefixed
        (Obj [(''testLabel'', Obj [(''test_value'', Str ''extended''), (''test_more'', Num 2),
                                   (''other'', Num 3)])])
        (Some ''testLabel'') (Some ''test_'')
     = Inr (Obj [(''value'', Str ''extended''), (''more'', Num 2)])
   \<and> instantiateExtendedSmartConfig ExtendedConfig
        (Obj [(''testLabel'', Obj [(''test_value'', Str ''extended''), (''test_more'', Num 2),
                                   (''other'', Num 3)])])
     = Inr (Obj [(''value'', Str ''extended''), (''kept'', Num 1), (''more'', Num 2)])"
proof -
  let ?D = "[(''value'', Str ''default''), (''kept'', Num 1)]"
  let ?I = "[(''value'', Undefined), (''kept'', Null), (''extra'', Str ''x'')]"
  let ?J = "[(''value'', Str ''extended''), (''more'', Num 2)]"
  let ?arg = "Obj [(''testLabel'', Obj [(''test_value'', Str ''extended''),
                                        (''test_more'', Num 2), (''other'', Num 3)])]"
  let ?ps = "[(''smartConfig'', Config), (''label'', Str ''testLabel''), (''prefix'', Str ''test_'')]"
  have wfI: "wf_props ?I" and wfJ: "wf_props ?J"
    by (simp_all add: wf_props_def)
  have plain: "pickLabeledAndPrefixed (Obj ?I) (opt_string (lookup [] ''label''))
                 (opt_string (lookup [] ''prefix'')) = Inr (Obj ?I)"
    by (simp add: lookup_def pickLabeledAndPrefixed_unset)
  have sc: "lookup ?ps ''smartConfig'' = Cls ''Config'' [] ?D"
    by (simp add: lookup_def Config_def)
  have picked: "pickLabeledAndPrefixed ?arg (Some ''testLabel'') (Some ''test_'') = Inr (Obj ?J)"
    by (simp add: pickLabeledAndPrefixed_def pickLabel_def filterByPrefix_def removePrefix_def
        lookup_def startsWith_def fromEntries_def spread_def)
  then have ext: "pickLabeledAndPrefixed ?arg
                 (case lookup ?ps ''label'' of Str l \<Rightarrow> Some l
                  | _ \<Rightarrow> opt_string (lookup [] ''label''))
                 (case lookup ?ps ''prefix'' of Str p \<Rightarrow> Some p
                  | _ \<Rightarrow> opt_string (lookup [] ''prefix'')) = Inr (Obj ?J)"
    by (simp add: lookup_def)
  from default_merge [of ?I ?D "''Config''" "[]" "Obj ?I" ?ps, rule_format, OF wfI] plain
  have one: "applyPropsToSmartConfig Config (Obj ?I) =
               Inr (Obj (spread ?D (filter (\<lambda>(k, v). v \<noteq> Undefined) ?I)))"
    "instantiateSmartConfig Config (Obj ?I) =
               Inr (Obj (spread ?D (filter (\<lambda>(k, v). v \<noteq> Undefined) ?I)))"
    by (auto simp: Config_def)
  from default_merge [of ?J ?D "''Config''" "[]" ?arg ?ps, rule_format, OF wfJ] sc ext
  have two: "instantiateExtendedSmartConfig ExtendedConfig ?arg =
               Inr (Obj (spread ?D (filter (\<lambda>(k, v). v \<noteq> Undefined) ?J)))"
    by (auto simp: ExtendedConfig_def)
  have all: "list_all (\<lambda>(k, v). v \<noteq> Undefined) ?J"
    by simp
  from wfI wfJ one two picked all show ?thesis
    by (simp add: spread_def)
qed

section \<open>Asynchronous resolution\<close>

lemma get_prop_ok: "get_prop v k = Inr x \<Longrightarrow> \<exists>y. get_prop v k' = Inr y"
  by (cases v) simp_all

lemma isAsyncParams_true:
  "get_prop arg ''useFactory'' = Inr f \<Longrightarrow> isFunction f \<Longrightarrow> isAsyncParams arg = Inr True"
  by (simp add: isAsyncParams_def)

text \<open>
  Claim C6. For a schema or a valid extended reference \<open>S\<close> and an input with a callable
  \<open>useFactory\<close>, \<open>moduleFromSmartConfig\<close> returns a module with one provider: its
  \<open>imports\<close> and \<open>inject\<close> are those of the input, it is registered under the token that
  the module exports, and awaiting its \<open>useFactory\<close> on any arguments gives what
  instantiating \<open>S\<close> on the awaited result of the input's \<open>useFactory\<close> gives (the
  rejection of the input's factory, when it rejects).
\<close>

theorem async_transparency:
  assumes uf: "get_prop arg ''useFactory'' = Inr f" and fn: "isFunction f"
    and valid: "isSmartConfig S \<or> isExtendedSmartConfig S = Inr True"
  shows "\<exists>m imps inject factory token tok.
           moduleFromSmartConfig S arg = Inr m
           \<and> m_providers m = Some [FactoryProvider imps inject factory tok]
           \<and> get_prop arg ''imports'' = Inr imps
           \<and> get_prop arg ''inject'' = Inr inject
           \<and> m_exports m = Some [tok]
           \<and> get_prop S ''token'' = Inr token
           \<and> (if isSmartConfig S then tok = or_else token S
                else \<exists>sc. get_prop S ''smartConfig'' = Inr sc \<and> tok = or_else token sc)
           \<and> (\<forall>\<Psi> args. call_fn \<Psi> factory args =
                 andThen (call_fn \<Psi> f args)
                   (if isSmartConfig S then instantiateSmartConfig S
                    else instantiateExtendedSmartConfig S))"
proof -
  from uf obtain imps where imps: "get_prop arg ''imports'' = Inr imps"
    using get_prop_ok by blast
  from uf obtain inject where inject: "get_prop arg ''inject'' = Inr inject"
    using get_prop_ok by blast
  have async: "isAsyncParams arg = Inr True"
    using uf fn by (rule isAsyncParams_true)
  show ?thesis
  proof (cases "isSmartConfig S")
    case True
    then obtain n st fs where S: "S = Cls n st fs"
      by (cases S) (simp_all add: isSmartConfig_def)
    show ?thesis
      using True async imps inject uf
      by (simp add: moduleFromSmartConfig_def config_module_def empty_module_def S)
  next
    case False
    with valid have ext: "isExtendedSmartConfig S = Inr True" by simp
    then obtain sc where sc: "get_prop S ''smartConfig'' = Inr sc"
      unfolding isExtendedSmartConfig_def by (cases "get_prop S ''smartConfig''") simp_all
    then obtain token where token: "get_prop S ''token'' = Inr token"
      using get_prop_ok by blast
    show ?thesis
      using False ext async imps inject uf sc token
      by (simp add: moduleFromSmartConfig_def config_module_def empty_module_def)
  qed
qed

theorem async_transparency_witness:
  "get_prop AsyncArg ''useFactory'' = Inr (Fn ''loadConfig'') \<and> isFunction (Fn ''loadConfig'')
   \<and> isSmartConfig Config
   \<and> (\<exists>m factory.
         moduleFromSmartConfig Config AsyncArg = Inr m
         \<and> m_providers m =
             Some [FactoryProvider (Arr [Str ''DbModule'']) (Arr [Str ''DB'']) factory Config]
         \<and> m_exports m = Some [Config]
         \<and> call_fn user_fns factory [] =
             Inr (Obj [(''value'', Str ''async''), (''kept'', Num 1)]))"
  using async_transparency [of AsyncArg "Fn ''loadConfig''" Config]
  by (auto simp: AsyncArg_def Config_def lookup_def isSmartConfig_def user_fns_def
      instantiateSmartConfig_def pickLabeledAndPrefixed_unset applyPropsToSmartConfig_def
      fromEntries_def spread_def or_else_def)

section \<open>The composition closure\<close>



lemma moduleFromSmartImport_frame:
  assumes "\<And>f v t. obs (snd (\<Phi> f v t)) = obs t"
  shows "obs (snd (moduleFromSmartImport \<Phi> c arg s)) = obs s"
  unfolding moduleFromSmartImport_def
  by (auto simp: assms split: sum.splits bool.splits prod.splits)

lemma map_state_frame:
  assumes "\<And>c t. obs (snd (g c t)) = obs t"
  shows "obs (snd (map_state g cs s)) = obs s"
proof (induction cs arbitrary: s)
  case Nil
  then show ?case by simp
next
  case (Cons c cs)
  obtain r s1 where r: "g c s = (r, s1)" by (cases "g c s")
  have s1: "obs s1 = obs s"
    using assms [of c s] r by simp
  show ?case
  proof (cases r)
    case (Inl e)
    with r s1 show ?thesis by simp
  next
    case (Inr y)
    obtain r2 s2 where r2: "map_state g cs s1 = (r2, s2)" by (cases "map_state g cs s1")
    have "obs s2 = obs s1"
      using Cons.IH [of s1] r2 by simp
    with r Inr r2 s1 show ?thesis
      by (cases r2) simp_all
  qed
qed

lemma declared_modules_frame:
  assumes "\<And>f v t. obs (snd (\<Phi> f v t)) = obs t"
  shows "obs (snd (declared_modules \<Phi> d arg s)) = obs s"
proof -
  have "obs (snd (map_state (\<lambda>c. moduleFromSmartImport \<Phi> c arg) cs s)) = obs s" for cs
    by (rule map_state_frame) (rule moduleFromSmartImport_frame, rule assms)
  then show ?thesis
    unfolding declared_modules_def
    by (auto split: sum.splits prod.splits) (metis snd_conv)+
qed



lemma with_module_imports [simp]: "m_imports (with_module c d) = m_imports d"
  by (simp add: with_module_def split: option.splits)

lemma smartModule_static_result:
  assumes "smartModule \<Phi> inl (Static d) this_name arg s = (Inr m, s')"
  shows "\<exists>ims scs sis s1.
           map_err (\<lambda>c. moduleFromSmartConfig c arg) inl = Inr ims
           \<and> declared_modules \<Phi> d arg s = (Inr (scs, sis), s1)
           \<and> appendImports (with_module (createNamedClass (closure_module_name this_name)) d)
                (ims @ scs @ sis) s1 = (m, s')"
  using assms unfolding smartModule_def
  by (auto simp: Let_def split: sum.splits prod.splits)






lemma Config_module: "moduleFromSmartConfig Config (Obj []) = Inr ConfigModule"
  by (simp add: moduleFromSmartConfig_def isSmartConfig_def Config_def isAsyncParams_def
      lookup_def or_else_def instantiateSmartConfig_def pickLabeledAndPrefixed_unset
      applyPropsToSmartConfig_def fromEntries_def spread_def ConfigModule_def)

lemma first_call_value:
  "first_call =
     (Inr (StaticWithImports\<lparr>m_module := Some (Cls ''SmartModule'' [] [])\<rparr>),
      push 0 [ConfigModule] Store1)"
  by (simp add: first_call_def smartModule_def declared_modules_def StaticWithImports_def
      opt_list_def Config_module appendImports_def with_module_def empty_module_def
      createNamedClass_def closure_module_name_def)

lemma second_call_value:
  "second_call =
     (Inr (StaticWithImports\<lparr>m_module := Some (Cls ''SmartModule'' [] [])\<rparr>),
      push 0 [ConfigModule] (push 0 [ConfigModule] Store1))"
  by (simp add: second_call_def first_call_value smartModule_def declared_modules_def
      StaticWithImports_def opt_list_def Config_module appendImports_def with_module_def
      empty_module_def createNamedClass_def closure_module_name_def)

lemma static_without_imports_keeps_store:
  assumes "smartModule \<Phi> inl (Static d) this_name arg s = (Inr m, s')"
    and "m_imports d = None" and "smartImports d = None"
  shows "m_imports m = Some (nxt s) \<and> (\<forall>a. a \<noteq> nxt s \<longrightarrow> heap s' a = heap s a)"
proof -
  from smartModule_static_result [OF assms(1)] obtain ims scs sis s1 where
    dm: "declared_modules \<Phi> d arg s = (Inr (scs, sis), s1)"
    and app: "appendImports (with_module (createNamedClass (closure_module_name this_name)) d)
                (ims @ scs @ sis) s1 = (m, s')"
    by blast
  from dm assms(3) have "s1 = s"
    by (auto simp: declared_modules_def opt_list_def split: sum.splits)
  with app assms(2) show ?thesis
    by (auto simp: appendImports_def alloc_def)
qed

text \<open>
  Claim C2 at a static descriptor that declares its own imports array. The closure is
  called twice with the same input. The first call pushes the synthetic module onto the
  descriptor's own array, which the module it returns shares: the descriptor has changed.
  The second call finds that array one entry longer and pushes again: the module it
  returns has three imports where the first had two when it was returned, and the first
  module, sharing the array, now has three as well.
\<close>

theorem static_imports_array_grows:
  "m_imports StaticWithImports = Some 0
   \<and> heap Store1 0 = [ExternalModule]
   \<and> fst first_call = Inr (StaticWithImports\<lparr>m_module := Some (Cls ''SmartModule'' [] [])\<rparr>)
   \<and> heap (snd first_call) 0 = [ExternalModule, ConfigModule]
   \<and> fst second_call = fst first_call
   \<and> heap (snd second_call) 0 = [ExternalModule, ConfigModule, ConfigModule]"
  by (simp add: first_call_value second_call_value push_def Store1_def StaticWithImports_def
      empty_module_def)




lemma Config_instance:
  "isSmartConfig Config"
  "instantiateSmartConfig Config (Obj []) =
     Inr (Obj [(''value'', Str ''default''), (''kept'', Num 1)])"
  by (simp_all add: isSmartConfig_def Config_def instantiateSmartConfig_def lookup_def
      pickLabeledAndPrefixed_unset applyPropsToSmartConfig_def fromEntries_def spread_def)



section \<open>Calls of the user factory\<close>

lemma appendImports_world: "world (snd (appendImports m xs s)) = world s"
  by (simp add: appendImports_def alloc_def push_def split: option.splits)

lemma alloc_world: "world (snd (alloc xs s)) = world s"
  by (simp add: alloc_def)

lemma map_err_nth:
  "map_err h xs = Inr ys \<Longrightarrow> i < length xs \<Longrightarrow> h (xs ! i) = Inr (ys ! i)"
proof (induction xs arbitrary: ys i)
  case Nil
  then show ?case by simp
next
  case (Cons x xs)
  then show ?case
    by (cases i) (auto split: sum.splits)
qed

lemma from_factory_calls:
  fixes f :: "nat \<Rightarrow> jsval list \<Rightarrow> call_log state \<Rightarrow> (error + dmodule) \<times> call_log state"
  assumes call: "from_factory \<Phi> f module a insts arg s0 = (r, s')"
    and logs: "\<forall>a args t. world (snd (f a args t)) = world t @ [(a, heap t a, args)]"
    and frame: "\<forall>g v t. world (snd (\<Phi> g v t)) = world t"
  shows "(world s' = world s0 @ [(a, heap s0 a, insts)] \<and> (\<exists>e. r = Inl e))
         \<or> (\<exists>again. world s' = world s0 @ [(a, heap s0 a, insts), (a, again, insts)])"
proof -
  obtain r1 s1 where c1: "f a insts s0 = (r1, s1)" by (cases "f a insts s0")
  have w1: "world s1 = world s0 @ [(a, heap s0 a, insts)]"
    using logs [rule_format, of a insts s0] c1 by simp
  show ?thesis
  proof (cases r1)
    case (Inl e)
    with call c1 have "r = Inl e" "s' = s1"
      by (simp_all add: from_factory_def)
    with w1 show ?thesis by simp
  next
    case d1: (Inr d1)
    obtain r2 s2 where dm: "declared_modules \<Phi> d1 arg s1 = (r2, s2)"
      by (cases "declared_modules \<Phi> d1 arg s1")
    have "world (snd (declared_modules \<Phi> d1 arg s1)) = world s1"
      by (rule declared_modules_frame) (use frame in simp)
    with dm have w2: "world s2 = world s1" by simp
    show ?thesis
    proof (cases r2)
      case (Inl e)
      with call c1 d1 dm have "r = Inl e" "s' = s2"
        by (simp_all add: from_factory_def)
      with w1 w2 show ?thesis by simp
    next
      case (Inr both)
      obtain scs sis where both: "both = (scs, sis)" by (cases both)
      obtain r3 s3 where c2: "f a insts s2 = (r3, s3)" by (cases "f a insts s2")
      have w3: "world s3 = world s2 @ [(a, heap s2 a, insts)]"
        using logs [rule_format, of a insts s2] c2 by simp
      show ?thesis
      proof (cases r3)
        case (Inl e)
        with call c1 d1 dm Inr both c2 have "s' = s3"
          by (simp add: from_factory_def)
        with w1 w2 w3 show ?thesis by simp
      next
        case d2: (Inr d2)
        with call c1 d1 dm Inr both c2
        have "s' = snd (appendImports (with_module module d2) (heap s3 a @ scs @ sis) s3)"
          by (auto simp: from_factory_def split: prod.splits)
        then have "world s' = world s3"
          by (simp add: appendImports_world)
        with w1 w2 w3 show ?thesis by simp
      qed
    qed
  qed
qed

lemma smartModule_factory_calls:
  fixes f :: "nat \<Rightarrow> jsval list \<Rightarrow> call_log state \<Rightarrow> (error + dmodule) \<times> call_log state"
  assumes call: "smartModule \<Phi> inl (Factory f) this_name arg s = (r, s')"
    and logs: "\<forall>a args t. world (snd (f a args t)) = world t @ [(a, heap t a, args)]"
    and frame: "\<forall>g v t. world (snd (\<Phi> g v t)) = world t"
  shows "(world s' = world s \<and> (\<exists>e. r = Inl e))
         \<or> (\<exists>ims async insts.
               map_err (\<lambda>c. moduleFromSmartConfig c arg) inl = Inr ims
               \<and> isAsyncParams arg = Inr async
               \<and> (if async then Inr []
                   else map_err (\<lambda>c. if isSmartConfig c then instantiateSmartConfig c arg
                                       else instantiateExtendedSmartConfig c arg) inl) = Inr insts
               \<and> ((world s' = world s @ [(nxt s, ims, insts)] \<and> (\<exists>e. r = Inl e))
                    \<or> (\<exists>again. world s' = world s @ [(nxt s, ims, insts), (nxt s, again, insts)])))"
proof (cases "map_err (\<lambda>c. moduleFromSmartConfig c arg) inl")
  case (Inl e)
  with call show ?thesis by (auto simp: smartModule_def)
next
  case ims: (Inr ims)
  let ?t0 = "snd (alloc ims s)"
  let ?module = "createNamedClass (closure_module_name this_name)"
  have t0: "world ?t0 = world s" "heap ?t0 (nxt s) = ims"
    by (simp_all add: alloc_def)
  show ?thesis
  proof (cases "isAsyncParams arg")
    case (Inl e)
    with call ims show ?thesis by (auto simp: smartModule_def alloc_def)
  next
    case async: (Inr async)
    show ?thesis
    proof (cases "(if async then Inr []
                   else map_err (\<lambda>c. if isSmartConfig c then instantiateSmartConfig c arg
                                       else instantiateExtendedSmartConfig c arg) inl)")
      case (Inl e)
      with call ims async show ?thesis
        by (cases async) (auto simp: smartModule_def alloc_def)
    next
      case insts: (Inr insts)
      with call ims async have ff: "from_factory \<Phi> f ?module (nxt s) insts arg ?t0 = (r, s')"
        by (cases async) (simp_all add: smartModule_def alloc_def)
      from from_factory_calls [OF ff logs frame] t0
      have "(world s' = world s @ [(nxt s, ims, insts)] \<and> (\<exists>e. r = Inl e))
            \<or> (\<exists>again. world s' = world s @ [(nxt s, ims, insts), (nxt s, again, insts)])"
        by simp
      with ims async insts show ?thesis by blast
    qed
  qed
qed

text \<open>
  Claim C9. Take a factory that logs every call, and nested-module functions that leave
  the log alone. Whatever one call of the closure does, each call of the factory that it
  makes receives the reference of the array of inline modules, which holds the modules of
  the inline schemas at the first call. Its further arguments are none when the input has
  a callable \<open>useFactory\<close>, and otherwise the instantiations of the inline schemas on the
  input, one per schema, in order. A call of the closure that returns a module has called
  the factory.
\<close>

theorem factory_arguments:
  fixes f :: "nat \<Rightarrow> jsval list \<Rightarrow> call_log state \<Rightarrow> (error + dmodule) \<times> call_log state"
  assumes call: "smartModule \<Phi> inl (Factory f) this_name arg s = (r, s')"
    and logs: "\<forall>a args t. world (snd (f a args t)) = world t @ [(a, heap t a, args)]"
    and frame: "\<forall>g v t. world (snd (\<Phi> g v t)) = world t"
  shows "\<exists>calls.
           world s' = world s @ calls
           \<and> ((\<exists>m. r = Inr m) \<longrightarrow> calls \<noteq> [])
           \<and> (calls \<noteq> [] \<longrightarrow>
                 map_err (\<lambda>c. moduleFromSmartConfig c arg) inl = Inr (fst (snd (hd calls))))
           \<and> (case isAsyncParams arg of
                 Inl e \<Rightarrow> calls = []
               | Inr True \<Rightarrow> list_all (\<lambda>(a, given, rest). a = nxt s \<and> rest = []) calls
               | Inr False \<Rightarrow>
                   list_all (\<lambda>(a, given, rest). a = nxt s
                      \<and> map_err (\<lambda>c. if isSmartConfig c then instantiateSmartConfig c arg
                                       else instantiateExtendedSmartConfig c arg) inl = Inr rest)
                     calls)"
proof -
  from smartModule_factory_calls [OF call logs frame]
  consider (none) "world s' = world s" "\<exists>e. r = Inl e"
    | (some) ims async insts calls where
        "map_err (\<lambda>c. moduleFromSmartConfig c arg) inl = Inr ims"
        "isAsyncParams arg = Inr async"
        "(if async then Inr []
          else map_err (\<lambda>c. if isSmartConfig c then instantiateSmartConfig c arg
                              else instantiateExtendedSmartConfig c arg) inl) = Inr insts"
        "world s' = world s @ calls"
        "calls = [(nxt s, ims, insts)] \<or> (\<exists>again. calls = [(nxt s, ims, insts), (nxt s, again, insts)])"
    by blast
  then show ?thesis
  proof cases
    case none
    then show ?thesis
      by (intro exI [of _ "[]"]) (auto split: sum.splits bool.splits)
  next
    case some
    then show ?thesis
      by (intro exI [of _ calls]) (cases async; auto)
  qed
qed

lemma Config_class:
  "class_name Config = ''Config''"
  "get_prop Config ''token'' = Inr Undefined"
  by (simp_all add: Config_def lookup_def)

lemma Config_async_module: "moduleFromSmartConfig Config AsyncArg = Inr AsyncConfigModule"
  by (simp add: moduleFromSmartConfig_def Config_instance Config_class
      AsyncArg_def isAsyncParams_def lookup_def or_else_def AsyncConfigModule_def)

lemma AsyncArg_async: "isAsyncParams AsyncArg = Inr True"
  by (simp add: AsyncArg_def isAsyncParams_def lookup_def)

lemma plain_not_async: "isAsyncParams (Obj []) = Inr False"
  by (simp add: isAsyncParams_def lookup_def)

lemma plain_call_value:
  "plain_call =
     (Inr (empty_module\<lparr>m_module := Some (Cls ''SmartModule'' [] []), m_imports := Some 1,
                        m_exports := Some [Str ''Service'']\<rparr>),
      \<lparr>heap = (\<lambda>a. [])(0 := [ConfigModule], 1 := [ConfigModule]), nxt = 2,
       world = [(0, [ConfigModule], [Obj [(''value'', Str ''default''), (''kept'', Num 1)]]),
                (0, [ConfigModule], [Obj [(''value'', Str ''default''), (''kept'', Num 1)]])]\<rparr>)"
  by (simp add: plain_call_def smartModule_def from_factory_def declared_modules_def
      opt_list_def Config_module Config_instance plain_not_async appendImports_def
      with_module_def logging_factory_def empty_module_def createNamedClass_def
      closure_module_name_def LogStore_def alloc_def push_def)

lemma async_call_value:
  "async_call =
     (Inr (empty_module\<lparr>m_module := Some (Cls ''SmartModule'' [] []), m_imports := Some 1,
                        m_exports := Some [Str ''Service'']\<rparr>),
      \<lparr>heap = (\<lambda>a. [])(0 := [AsyncConfigModule], 1 := [AsyncConfigModule]), nxt = 2,
       world = [(0, [AsyncConfigModule], []), (0, [AsyncConfigModule], [])]\<rparr>)"
  by (simp add: async_call_def smartModule_def from_factory_def declared_modules_def
      opt_list_def Config_async_module AsyncArg_async appendImports_def
      with_module_def logging_factory_def empty_module_def createNamedClass_def
      closure_module_name_def LogStore_def alloc_def push_def)

theorem factory_arguments_witness:
  "isAsyncParams AsyncArg = Inr True
   \<and> world (snd async_call) = [(0, [AsyncConfigModule], []), (0, [AsyncConfigModule], [])]
   \<and> isAsyncParams (Obj []) = Inr False
   \<and> instantiateSmartConfig Config (Obj []) =
       Inr (Obj [(''value'', Str ''default''), (''kept'', Num 1)])
   \<and> world (snd plain_call) =
       [(0, [ConfigModule], [Obj [(''value'', Str ''default''), (''kept'', Num 1)]]),
        (0, [ConfigModule], [Obj [(''value'', Str ''default''), (''kept'', Num 1)]])]"
proof -
  have logs: "\<forall>a args t. world (snd (logging_factory a args t)) = world t @ [(a, heap t a, args)]"
    by (simp add: logging_factory_def)
  have frame: "\<forall>g v t. world (snd (quiet_env g v t)) = world t"
    by (simp add: quiet_env_def)
  have plain: "smartModule quiet_env [Config] (Factory logging_factory) None (Obj []) LogStore
                 = (fst plain_call, snd plain_call)"
    by (simp add: plain_call_def)
  have async: "smartModule quiet_env [Config] (Factory logging_factory) None AsyncArg LogStore
                 = (fst async_call, snd async_call)"
    by (simp add: async_call_def)
  from factory_arguments [OF async logs frame] obtain calls where
    "world (snd async_call) = world LogStore @ calls"
    "list_all (\<lambda>(a, given, rest). a = nxt LogStore \<and> rest = []) calls"
    by (auto simp: AsyncArg_async)
  moreover
  from factory_arguments [OF plain logs frame] obtain calls' where
    "world (snd plain_call) = world LogStore @ calls'"
    "list_all (\<lambda>(a, given, rest). a = nxt LogStore
        \<and> map_err (\<lambda>c. if isSmartConfig c then instantiateSmartConfig c (Obj [])
                         else instantiateExtendedSmartConfig c (Obj [])) [Config] = Inr rest) calls'"
    by (auto simp: plain_not_async)
  ultimately show ?thesis
    by (simp add: plain_call_value async_call_value AsyncArg_async plain_not_async Config_instance)
qed

section \<open>Invalid configuration sources\<close>

lemma oops_not_extended: "isExtendedSmartConfig (Str ''oops'') = Inr False"
  by code_simp


lemma map_err_first_error:
  "map_err h pre = Inr ys \<Longrightarrow> h c = Inl e \<Longrightarrow> map_err h (pre @ c # post) = Inl e"
  by (induction pre arbitrary: ys) (auto split: sum.splits)

lemma smartModule_static_error:
  assumes "map_err (\<lambda>c. moduleFromSmartConfig c arg) inl = Inr ims"
    and "map_err (\<lambda>c. moduleFromSmartConfig c arg) (opt_list (smartConfigs d)) = Inl e"
  shows "smartModule \<Phi> inl (Static d) this_name arg s = (Inl e, s)"
  using assms by (simp add: smartModule_def declared_modules_config_error)

lemma smartModule_factory_error:
  assumes "map_err (\<lambda>c. moduleFromSmartConfig c arg) inl = Inr ims"
    and "isAsyncParams arg = Inr async"
    and "(if async then Inr []
          else map_err (\<lambda>c. if isSmartConfig c then instantiateSmartConfig c arg
                              else instantiateExtendedSmartConfig c arg) inl) = Inr insts"
    and "f (nxt s) insts (snd (alloc ims s)) = (Inr d1, t1)"
    and "map_err (\<lambda>c. moduleFromSmartConfig c arg) (opt_list (smartConfigs d1)) = Inl e"
  shows "smartModule \<Phi> inl (Factory f) this_name arg s = (Inl e, t1)"
  using assms
  by (cases async)
     (simp_all add: smartModule_def alloc_def from_factory_def declared_modules_config_error)

text \<open>
  Claim C7 as stated fails for \<open>null\<close>: it is no class and no extended reference, and the
  error is a TypeError, not the invalid-source error.
\<close>

theorem invalid_config_source_counterexample:
  "\<not> isSmartConfig Null \<and> isExtendedSmartConfig Null \<noteq> Inr True
   \<and> moduleFromSmartConfig Null (Obj [(''test'', Str ''value'')]) = Inl TypeError"
  by (simp add: isSmartConfig_def isExtendedSmartConfig_def moduleFromSmartConfig_def)

text \<open>
  Claim C7, as amended. A value in the place of a configuration schema that is neither a
  class nor an object with a class under \<open>smartConfig\<close> makes \<open>moduleFromSmartConfig\<close>
  throw. When the property read of \<open>isExtendedSmartConfig\<close> succeeds on it, the statement
  reached is the last \<open>throw\<close>, whose template runs \<open>JSON.stringify\<close> on the value and
  on the input before the error exists: when both can be serialised the error is the
  invalid-source error, with the value, its \<open>typeof\<close> and the input in the message; when
  one of them holds a bigint or itself, the error is the TypeError of \<open>JSON.stringify\<close>.
  For \<open>undefined\<close> and \<open>null\<close> it is the TypeError of the property read. A class or a
  valid extended reference never gives the invalid-source error. In a list of schemas, the
  error of the first entry that throws is the error of the list, and a list that holds
  such a value throws. The call of the closure throws that error, and returns no module,
  for the inline schemas, with the store untouched; for the \<open>smartConfigs\<close> of a static
  descriptor, with the store untouched; and for the \<open>smartConfigs\<close> of the descriptor
  that the factory returns at its first call, in the store that call left.
\<close>

theorem invalid_config_source:
  "(\<not> isSmartConfig c \<and> isExtendedSmartConfig c = Inr False \<longrightarrow>
      moduleFromSmartConfig c arg =
        Inl (if serialisable c \<and> serialisable arg
             then InvalidConfigSource
                    [Lit ''SmartConfig: '', Json c, Lit '' of ['', Lit (typeof c), Lit ''], '',
                     Json arg, Lit '' is not valid smart config base for module'']
             else TypeError))
   \<and> (nullish c \<longrightarrow> moduleFromSmartConfig c arg = Inl TypeError)
   \<and> (isSmartConfig c \<or> isExtendedSmartConfig c = Inr True \<longrightarrow>
        (\<forall>msg. moduleFromSmartConfig c arg \<noteq> Inl (InvalidConfigSource msg)))
   \<and> (\<not> isSmartConfig c \<and> isExtendedSmartConfig c \<noteq> Inr True \<and> c \<in> set cs \<longrightarrow>
        (\<exists>e. map_err (\<lambda>c. moduleFromSmartConfig c arg) cs = Inl e))
   \<and> (map_err (\<lambda>c. moduleFromSmartConfig c arg) pre = Inr ys
        \<and> moduleFromSmartConfig c arg = Inl e \<longrightarrow>
        map_err (\<lambda>c. moduleFromSmartConfig c arg) (pre @ c # post) = Inl e)
   \<and> (map_err (\<lambda>c. moduleFromSmartConfig c arg) inl = Inl e \<longrightarrow>
        smartModule \<Phi> inl mof this_name arg s = (Inl e, s))
   \<and> (map_err (\<lambda>c. moduleFromSmartConfig c arg) inl = Inr ims
        \<and> map_err (\<lambda>c. moduleFromSmartConfig c arg) (opt_list (smartConfigs d)) = Inl e \<longrightarrow>
        smartModule \<Phi> inl (Static d) this_name arg s = (Inl e, s))
   \<and> (map_err (\<lambda>c. moduleFromSmartConfig c arg) inl = Inr ims
        \<and> isAsyncParams arg = Inr async
        \<and> (if async then Inr []
            else map_err (\<lambda>c. if isSmartConfig c then instantiateSmartConfig c arg
                                else instantiateExtendedSmartConfig c arg) inl) = Inr insts
        \<and> f (nxt s) insts (snd (alloc ims s)) = (Inr d, t)
        \<and> map_err (\<lambda>c. moduleFromSmartConfig c arg) (opt_list (smartConfigs d)) = Inl e \<longrightarrow>
        smartModule \<Phi> inl (Factory f) this_name arg s = (Inl e, t))"
proof (intro conjI impI)
  assume "\<not> isSmartConfig c \<and> isExtendedSmartConfig c = Inr False"
  then show "moduleFromSmartConfig c arg =
        Inl (if serialisable c \<and> serialisable arg
             then InvalidConfigSource
                    [Lit ''SmartConfig: '', Json c, Lit '' of ['', Lit (typeof c), Lit ''], '',
                     Json arg, Lit '' is not valid smart config base for module'']
             else TypeError)"
    by (simp add: moduleFromSmartConfig_invalid config_error_def)
next
  assume "nullish c"
  then show "moduleFromSmartConfig c arg = Inl TypeError"
    by (rule moduleFromSmartConfig_nullish)
next
  assume v: "isSmartConfig c \<or> isExtendedSmartConfig c = Inr True"
  show "\<forall>msg. moduleFromSmartConfig c arg \<noteq> Inl (InvalidConfigSource msg)"
    using moduleFromSmartConfig_valid_error [OF v] by fastforce
next
  assume h: "\<not> isSmartConfig c \<and> isExtendedSmartConfig c \<noteq> Inr True \<and> c \<in> set cs"
  then obtain e where "moduleFromSmartConfig c arg = Inl e"
    using moduleFromSmartConfig_not_valid by blast
  with h show "\<exists>e. map_err (\<lambda>c. moduleFromSmartConfig c arg) cs = Inl e"
    using map_err_invalid [of c cs "\<lambda>c. moduleFromSmartConfig c arg"] by blast
next
  assume "map_err (\<lambda>c. moduleFromSmartConfig c arg) pre = Inr ys
        \<and> moduleFromSmartConfig c arg = Inl e"
  then show "map_err (\<lambda>c. moduleFromSmartConfig c arg) (pre @ c # post) = Inl e"
    using map_err_first_error [of "\<lambda>c. moduleFromSmartConfig c arg" pre ys c e post] by simp
next
  assume "map_err (\<lambda>c. moduleFromSmartConfig c arg) inl = Inl e"
  then show "smartModule \<Phi> inl mof this_name arg s = (Inl e, s)"
    by (rule smartModule_inline_error)
next
  assume "map_err (\<lambda>c. moduleFromSmartConfig c arg) inl = Inr ims
        \<and> map_err (\<lambda>c. moduleFromSmartConfig c arg) (opt_list (smartConfigs d)) = Inl e"
  then show "smartModule \<Phi> inl (Static d) this_name arg s = (Inl e, s)"
    using smartModule_static_error by blast
next
  assume "map_err (\<lambda>c. moduleFromSmartConfig c arg) inl = Inr ims
        \<and> isAsyncParams arg = Inr async
        \<and> (if async then Inr []
            else map_err (\<lambda>c. if isSmartConfig c then instantiateSmartConfig c arg
                                else instantiateExtendedSmartConfig c arg) inl) = Inr insts
        \<and> f (nxt s) insts (snd (alloc ims s)) = (Inr d, t)
        \<and> map_err (\<lambda>c. moduleFromSmartConfig c arg) (opt_list (smartConfigs d)) = Inl e"
  then show "smartModule \<Phi> inl (Factory f) this_name arg s = (Inl e, t)"
    using smartModule_factory_error [of arg inl ims async insts f s d t e \<Phi> this_name]
    by blast
qed

theorem invalid_config_source_witness:
  "moduleFromSmartConfig (Str ''oops'') (Obj []) =
     Inl (InvalidConfigSource
           [Lit ''SmartConfig: '', Json (Str ''oops''), Lit '' of ['', Lit ''string'',
            Lit ''], '', Json (Obj []), Lit '' is not valid smart config base for module''])
   \<and> moduleFromSmartConfig (BigInt 1) (Obj []) = Inl TypeError
   \<and> moduleFromSmartConfig (Obj [(''port'', BigInt 1)]) (Obj []) = Inl TypeError
   \<and> moduleFromSmartConfig (Str ''oops'') Cyclic = Inl TypeError
   \<and> moduleFromSmartConfig Null (Obj []) = Inl TypeError
   \<and> moduleFromSmartConfig ConfigWithStaticToken Undefined \<noteq> Inl (InvalidConfigSource [])
   \<and> (\<exists>e. map_err (\<lambda>c. moduleFromSmartConfig c Cyclic) [Null, Str ''oops''] = Inl e)
   \<and> map_err (\<lambda>c. moduleFromSmartConfig c (Obj [])) [Config, Str ''oops'', Null] =
       Inl (InvalidConfigSource
           [Lit ''SmartConfig: '', Json (Str ''oops''), Lit '' of ['', Lit ''string'',
            Lit ''], '', Json (Obj []), Lit '' is not valid smart config base for module''])
   \<and> smartModule no_imports [Config, Str ''oops'', Null] (Static empty_module) None (Obj [])
        NoStore =
       (Inl (InvalidConfigSource
           [Lit ''SmartConfig: '', Json (Str ''oops''), Lit '' of ['', Lit ''string'',
            Lit ''], '', Json (Obj []), Lit '' is not valid smart config base for module'']),
        NoStore)
   \<and> smartModule no_imports [] (Static (empty_module\<lparr>smartConfigs := Some [Str ''oops'']\<rparr>))
        None (Obj []) NoStore =
       (Inl (InvalidConfigSource
           [Lit ''SmartConfig: '', Json (Str ''oops''), Lit '' of ['', Lit ''string'',
            Lit ''], '', Json (Obj []), Lit '' is not valid smart config base for module'']),
        NoStore)
   \<and> fst (smartModule quiet_env [Config] (Factory bad_factory) None (Obj []) LogStore) =
       Inl (InvalidConfigSource
           [Lit ''SmartConfig: '', Json (Str ''oops''), Lit '' of ['', Lit ''string'',
            Lit ''], '', Json (Obj []), Lit '' is not valid smart config base for module''])
   \<and> world (snd (smartModule quiet_env [Config] (Factory bad_factory) None (Obj []) LogStore)) =
       [(0, [ConfigModule], [Obj [(''value'', Str ''default''), (''kept'', Num 1)]])]"
proof -
  let ?e = "InvalidConfigSource
           [Lit ''SmartConfig: '', Json (Str ''oops''), Lit '' of ['', Lit ''string'',
            Lit ''], '', Json (Obj []), Lit '' is not valid smart config base for module'']"
  let ?bad = "empty_module\<lparr>smartConfigs := Some [Str ''oops'']\<rparr>"
  let ?inst = "Obj [(''value'', Str ''default''), (''kept'', Num 1)]"
  have str: "\<not> isSmartConfig (Str ''oops'') \<and> isExtendedSmartConfig (Str ''oops'') = Inr False"
    by (simp add: isSmartConfig_def oops_not_extended)
  have big: "\<not> isSmartConfig (BigInt 1) \<and> isExtendedSmartConfig (BigInt 1) = Inr False"
    by (simp add: isSmartConfig_def isExtendedSmartConfig_def)
  have port: "\<not> isSmartConfig (Obj [(''port'', BigInt 1)])
              \<and> isExtendedSmartConfig (Obj [(''port'', BigInt 1)]) = Inr False"
    by (simp add: isSmartConfig_def isExtendedSmartConfig_def lookup_def)
  have c1: "moduleFromSmartConfig (Str ''oops'') (Obj []) = Inl ?e"
    using invalid_config_source [where c = "Str ''oops''" and arg = "Obj []",
        THEN conjunct1, rule_format, OF str]
    by simp
  have c2: "moduleFromSmartConfig (BigInt 1) (Obj []) = Inl TypeError"
    using invalid_config_source [where c = "BigInt 1" and arg = "Obj []",
        THEN conjunct1, rule_format, OF big]
    by simp
  have c3: "moduleFromSmartConfig (Obj [(''port'', BigInt 1)]) (Obj []) = Inl TypeError"
    using invalid_config_source [where c = "Obj [(''port'', BigInt 1)]" and arg = "Obj []",
        THEN conjunct1, rule_format, OF port]
    by simp
  have c4: "moduleFromSmartConfig (Str ''oops'') Cyclic = Inl TypeError"
    using invalid_config_source [where c = "Str ''oops''" and arg = Cyclic,
        THEN conjunct1, rule_format, OF str]
    by (simp add: Cyclic_def)
  have c5: "moduleFromSmartConfig Null (Obj []) = Inl TypeError"
    using invalid_config_source [where c = Null and arg = "Obj []",
        THEN conjunct2, THEN conjunct1, rule_format]
    by simp
  have tok: "isSmartConfig ConfigWithStaticToken \<or> isExtendedSmartConfig ConfigWithStaticToken = Inr True"
    by (simp add: isSmartConfig_def ConfigWithStaticToken_def)
  have c6: "moduleFromSmartConfig ConfigWithStaticToken Undefined \<noteq> Inl (InvalidConfigSource [])"
    using invalid_config_source [where c = ConfigWithStaticToken and arg = Undefined,
        THEN conjunct2, THEN conjunct2, THEN conjunct1, rule_format, OF tok]
    by simp
  have mem: "\<not> isSmartConfig (Str ''oops'') \<and> isExtendedSmartConfig (Str ''oops'') \<noteq> Inr True
             \<and> Str ''oops'' \<in> set [Null, Str ''oops'']"
    using str by simp
  have c7: "\<exists>e. map_err (\<lambda>c. moduleFromSmartConfig c Cyclic) [Null, Str ''oops''] = Inl e"
    using invalid_config_source [where c = "Str ''oops''" and arg = Cyclic
        and cs = "[Null, Str ''oops'']",
        THEN conjunct2, THEN conjunct2, THEN conjunct2, THEN conjunct1, rule_format, OF mem] .
  have pre: "map_err (\<lambda>c. moduleFromSmartConfig c (Obj [])) [Config] = Inr [ConfigModule]
             \<and> moduleFromSmartConfig (Str ''oops'') (Obj []) = Inl ?e"
    by (simp add: Config_module c1)
  have c8: "map_err (\<lambda>c. moduleFromSmartConfig c (Obj [])) [Config, Str ''oops'', Null] = Inl ?e"
    using invalid_config_source [where c = "Str ''oops''" and arg = "Obj []"
        and pre = "[Config]" and ys = "[ConfigModule]" and e = ?e and post = "[Null]",
        THEN conjunct2, THEN conjunct2, THEN conjunct2, THEN conjunct2, THEN conjunct1,
        rule_format, OF pre]
    by simp
  have c9: "smartModule no_imports [Config, Str ''oops'', Null] (Static empty_module) None (Obj [])
              NoStore = (Inl ?e, NoStore)"
    using invalid_config_source [where arg = "Obj []" and inl = "[Config, Str ''oops'', Null]"
        and e = ?e and \<Phi> = no_imports and mof = "Static empty_module" and this_name = None
        and s = NoStore,
        THEN conjunct2, THEN conjunct2, THEN conjunct2, THEN conjunct2, THEN conjunct2,
        THEN conjunct1, rule_format, OF c8] .
  have st: "map_err (\<lambda>c. moduleFromSmartConfig c (Obj [])) [] = Inr []
            \<and> map_err (\<lambda>c. moduleFromSmartConfig c (Obj [])) (opt_list (smartConfigs ?bad)) = Inl ?e"
    by (simp add: opt_list_def c1)
  have c10: "smartModule no_imports [] (Static ?bad) None (Obj []) NoStore = (Inl ?e, NoStore)"
    using invalid_config_source [where arg = "Obj []" and inl = "[]" and ims = "[]"
        and e = ?e and \<Phi> = no_imports and d = ?bad and this_name = None and s = NoStore,
        THEN conjunct2, THEN conjunct2, THEN conjunct2, THEN conjunct2, THEN conjunct2,
        THEN conjunct2, THEN conjunct1, rule_format, OF st] .
  let ?t = "snd (bad_factory (nxt LogStore) [?inst] (snd (alloc [ConfigModule] LogStore)))"
  have fa: "map_err (\<lambda>c. moduleFromSmartConfig c (Obj [])) [Config] = Inr [ConfigModule]
            \<and> isAsyncParams (Obj []) = Inr False
            \<and> (if False then Inr []
                else map_err (\<lambda>c. if isSmartConfig c then instantiateSmartConfig c (Obj [])
                                    else instantiateExtendedSmartConfig c (Obj [])) [Config])
                = Inr [?inst]
            \<and> bad_factory (nxt LogStore) [?inst] (snd (alloc [ConfigModule] LogStore)) = (Inr ?bad, ?t)
            \<and> map_err (\<lambda>c. moduleFromSmartConfig c (Obj [])) (opt_list (smartConfigs ?bad)) = Inl ?e"
    by (simp add: Config_module plain_not_async Config_instance opt_list_def c1 bad_factory_def)
  have c11: "smartModule quiet_env [Config] (Factory bad_factory) None (Obj []) LogStore
               = (Inl ?e, ?t)"
    using invalid_config_source [where arg = "Obj []" and inl = "[Config]"
        and ims = "[ConfigModule]" and async = False and insts = "[?inst]" and f = bad_factory
        and e = ?e and \<Phi> = quiet_env and d = ?bad and this_name = None and s = LogStore
        and t = ?t,
        THEN conjunct2, THEN conjunct2, THEN conjunct2, THEN conjunct2, THEN conjunct2,
        THEN conjunct2, THEN conjunct2, rule_format, OF fa] .
  have w: "world ?t = [(0, [ConfigModule], [?inst])]"
    by (simp add: bad_factory_def alloc_def LogStore_def)
  show ?thesis
    by (simp only: c1 c2 c3 c4 c5 c6 c7 c8 c9 c10 c11 fst_conv snd_conv w simp_thms)
qed

section \<open>How often the user factory is called\<close>











end
